theory Spec2Isabelle
  imports Complex_Main
begin

section \<open>Python values used by \<^verbatim>\<open>exporter.py\<close>\<close>

text \<open>
  The exporter is a ROS node written in Python. Python floats are idealised as
  \<^typ>\<open>real\<close> (finite values, exact arithmetic; NaN and the infinities are outside the
  model), Python's unbounded ints as \<^typ>\<open>int\<close> or \<^typ>\<open>nat\<close>, text as
  \<^typ>\<open>string\<close> (ASCII), and a raised exception as the left summand of a sum type.
\<close>

datatype py_error =
  OSError | ValueError | TypeError | IndexError | UnicodeDecodeError
  | ZeroDivisionError | NVMLError | SubprocessError

text \<open>
  \<^verbatim>\<open>round(x, n)\<close> on a float: the nearest multiple of \<open>10^-n\<close>, a tie going to
  the even neighbour.
\<close>

definition round_half_even :: "real \<Rightarrow> int" where
  "round_half_even y =
     (let f = \<lfloor>y\<rfloor>; d = y - of_int f
      in if d < 1 / 2 then f else if 1 / 2 < d then f + 1 else if even f then f else f + 1)"

definition py_round :: "real \<Rightarrow> nat \<Rightarrow> real" where
  "py_round x n = of_int (round_half_even (x * 10 ^ n)) / 10 ^ n"

text \<open>\<^verbatim>\<open>a / b\<close> on numbers raises on a zero divisor.\<close>

definition py_truediv :: "real \<Rightarrow> real \<Rightarrow> py_error + real" where
  "py_truediv a b = (if b = 0 then Inl ZeroDivisionError else Inr (a / b))"

subsection \<open>String methods\<close>

text \<open>\<^verbatim>\<open>str.isspace\<close> on ASCII: tab to carriage return, the four separators, space.\<close>

definition py_isspace :: "char \<Rightarrow> bool" where
  "py_isspace c =
     (c \<in> set [CHR 0x09, CHR 0x0A, CHR 0x0B, CHR 0x0C, CHR 0x0D,
                CHR 0x1C, CHR 0x1D, CHR 0x1E, CHR 0x1F, CHR 0x20])"

definition strip :: "string \<Rightarrow> string" where
  "strip s = rev (dropWhile py_isspace (rev (dropWhile py_isspace s)))"

text \<open>\<^verbatim>\<open>s.rstrip(chars)\<close>: drops the trailing characters that occur in \<open>chars\<close>.\<close>

definition rstrip :: "string \<Rightarrow> string \<Rightarrow> string" where
  "rstrip s chars = rev (dropWhile (\<lambda>c. c \<in> set chars) (rev s))"

definition startswith :: "string \<Rightarrow> string \<Rightarrow> bool" where
  "startswith s p = (take (length p) s = p)"

text \<open>\<^verbatim>\<open>sub in s\<close>: \<open>sub\<close> occurs in \<open>s\<close> as a contiguous substring.\<close>

fun str_in :: "string \<Rightarrow> string \<Rightarrow> bool" where
  "str_in sub [] = (sub = [])"
| "str_in sub (c # cs) = (startswith (c # cs) sub \<or> str_in sub cs)"

text \<open>\<^verbatim>\<open>os.path.basename\<close>: what follows the last slash.\<close>

definition basename :: "string \<Rightarrow> string" where
  "basename p = rev (takeWhile (\<lambda>c. c \<noteq> CHR ''/'') (rev p))"

text \<open>\<^verbatim>\<open>s.replace("%", "")\<close>.\<close>

definition remove_percent :: "string \<Rightarrow> string" where
  "remove_percent s = filter (\<lambda>c. c \<noteq> CHR ''%'') s"

definition lower_char :: "char \<Rightarrow> char" where
  "lower_char c =
     (let n = (of_char c :: nat) in if 65 \<le> n \<and> n \<le> 90 then char_of (n + 32) else c)"

definition lower :: "string \<Rightarrow> string" where
  "lower s = map lower_char s"

text \<open>\<^verbatim>\<open>s.split(":")\<close>: the fields between colons, at least one.\<close>

fun split_colon :: "string \<Rightarrow> string list" where
  "split_colon [] = [[]]"
| "split_colon (c # cs) =
     (if c = CHR '':'' then [] # split_colon cs
      else (case split_colon cs of f # fs \<Rightarrow> (c # f) # fs | [] \<Rightarrow> [[c]]))"

text \<open>\<^verbatim>\<open>line.split(":")[1].strip()\<close>, an \<^verbatim>\<open>IndexError\<close> without a colon.\<close>

definition colon_field1 :: "string \<Rightarrow> py_error + string" where
  "colon_field1 line =
     (case split_colon line of _ # f # _ \<Rightarrow> Inr (strip f) | _ \<Rightarrow> Inl IndexError)"

section \<open>The host as the probes see it\<close>

text \<open>
  A path is absent (\<^verbatim>\<open>os.path.exists\<close> is false), present but failing to open or
  read (a directory, a permission error), or a readable file with its text.
\<close>

datatype file_state = Absent | Unreadable | Content string

definition path_exists :: "(string \<Rightarrow> file_state) \<Rightarrow> string \<Rightarrow> bool" where
  "path_exists fs p = (fs p \<noteq> Absent)"

text \<open>\<^verbatim>\<open>with open(p, "r") as f: f.read()\<close>.\<close>

definition read_file :: "(string \<Rightarrow> file_state) \<Rightarrow> string \<Rightarrow> py_error + string" where
  "read_file fs p = (case fs p of Content s \<Rightarrow> Inr s | _ \<Rightarrow> Inl OSError)"

record partition =
  device :: string
  mountpoint :: string

text \<open>
  The name NVML reports: a \<^verbatim>\<open>str\<close>, or \<^verbatim>\<open>bytes\<close> that decode as UTF-8 to
  the given text, or \<^verbatim>\<open>bytes\<close> that do not decode.
\<close>

datatype nvml_name = NameStr string | NameBytes string | NameBadBytes

text \<open>
  What \<^verbatim>\<open>psutil.virtual_memory()\<close> and \<^verbatim>\<open>psutil.disk_usage("/")\<close> report: the
  second field is \<^verbatim>\<open>available\<close> for the memory and \<^verbatim>\<open>free\<close> for the disk.
\<close>

record usage =
  usage_total :: int
  usage_available :: int
  usage_used :: int
  usage_percent_raw :: real

text \<open>
  One probe sees the host through these observations. A query that can raise is a sum.
  \<^verbatim>\<open>nvmlDeviceGetMemoryInfo\<close> gives the pair (total, used),
  \<^verbatim>\<open>nvmlDeviceGetUtilizationRates\<close> the \<^verbatim>\<open>gpu\<close> field. \<^verbatim>\<open>lsusb\<close> is run once
  for the Coral step and once more for the Movidius step; each run has its own outcome.
  The \<^verbatim>\<open>psutil\<close> queries that the source calls outside any \<^verbatim>\<open>try\<close> are taken to
  return.
\<close>

record host =
  fs :: "string \<Rightarrow> file_state"
  proc_cpuinfo :: "py_error + string list"
  platform_processor :: string
  platform_machine :: string
  psutil_cpu_freq :: "py_error + real option"
  psutil_cpu_count :: "nat option"
  psutil_cpu_percent :: real
  psutil_virtual_memory :: usage
  psutil_disk_usage :: usage
  psutil_disk_partitions :: "py_error + partition list"
  NVML_AVAILABLE :: bool
  nvmlDeviceGetCount :: "py_error + int"
  nvmlDeviceGetHandleByIndex :: "py_error + unit"
  nvmlDeviceGetName :: "py_error + nvml_name"
  nvmlDeviceGetMemoryInfo :: "py_error + int \<times> int"
  nvmlDeviceGetUtilizationRates :: "py_error + int"
  lsusb_coral :: "py_error + string"
  lsusb_movidius :: "py_error + string"

section \<open>Hardware probes\<close>

subsection \<open>\<^verbatim>\<open>get_cpu_model\<close>, \<^verbatim>\<open>get_cpu_frequency\<close>\<close>

definition processor_or_unknown :: "host \<Rightarrow> string" where
  "processor_or_unknown h =
     (if platform_processor h \<noteq> [] then platform_processor h else ''Unknown'')"

fun cpuinfo_scan :: "string list \<Rightarrow> py_error + string option" where
  "cpuinfo_scan [] = Inr None"
| "cpuinfo_scan (line # rest) =
     (if str_in ''model name'' (lower line) then map_sum id Some (colon_field1 line)
      else if str_in ''hardware'' (lower line) then map_sum id Some (colon_field1 line)
      else cpuinfo_scan rest)"

definition get_cpu_model :: "host \<Rightarrow> string" where
  "get_cpu_model h =
     (case proc_cpuinfo h of
        Inl e \<Rightarrow> processor_or_unknown h
      | Inr ls \<Rightarrow>
          (case cpuinfo_scan ls of
             Inl e \<Rightarrow> processor_or_unknown h
           | Inr (Some m) \<Rightarrow> m
           | Inr None \<Rightarrow> processor_or_unknown h))"

definition get_cpu_frequency :: "host \<Rightarrow> real" where
  "get_cpu_frequency h =
     (case psutil_cpu_freq h of Inr (Some current) \<Rightarrow> current | _ \<Rightarrow> 0)"

subsection \<open>\<^verbatim>\<open>get_disk_type\<close>\<close>

text \<open>The loop over the partitions: the device of the first one mounted at \<open>/\<close>.\<close>

fun find_root_part :: "partition list \<Rightarrow> string option" where
  "find_root_part [] = None"
| "find_root_part (part # rest) =
     (if mountpoint part = ''/'' then Some (device part) else find_root_part rest)"

definition rotational_path :: "string \<Rightarrow> string" where
  "rotational_path root_part =
     ''/sys/block/'' @ rstrip (basename root_part) ''0123456789'' @ ''/queue/rotational''"

text \<open>The body of the \<^verbatim>\<open>try\<close>: \<open>Inl\<close> is an exception reaching the \<^verbatim>\<open>except\<close>.\<close>

definition disk_type_try :: "host \<Rightarrow> py_error + string" where
  "disk_type_try h =
     (case psutil_disk_partitions h of
        Inl e \<Rightarrow> Inl e
      | Inr parts \<Rightarrow>
          (case find_root_part parts of
             None \<Rightarrow> Inr ''Unknown''
           | Some root_part \<Rightarrow>
               if root_part = [] then Inr ''Unknown''
               else if str_in ''mmcblk'' root_part then Inr ''SD/eMMC''
               else if str_in ''nvme'' root_part then Inr ''NVMe SSD''
               else if startswith root_part ''/dev/sd'' then
                 (if path_exists (fs h) (rotational_path root_part) then
                    (case read_file (fs h) (rotational_path root_part) of
                       Inl e \<Rightarrow> Inl e
                     | Inr txt \<Rightarrow> Inr (if strip txt = ''1'' then ''HDD'' else ''SSD''))
                  else Inr ''Unknown'')
               else Inr ''Unknown''))"

definition get_disk_type :: "host \<Rightarrow> string" where
  "get_disk_type h = (case disk_type_try h of Inl e \<Rightarrow> ''Unknown'' | Inr t \<Rightarrow> t)"

subsection \<open>\<^verbatim>\<open>get_gpu_info\<close>\<close>

record gpu_info =
  gpu_available :: bool
  gpu_name :: "string option"
  gpu_model :: "string option"
  gpu_memory_total_bytes :: int
  gpu_memory_used_bytes :: int
  gpu_memory_usage_percent :: real
  gpu_utilization_percent :: real

definition gpu_default :: gpu_info where
  "gpu_default =
     \<lparr>gpu_available = False, gpu_name = None, gpu_model = None,
      gpu_memory_total_bytes = 0, gpu_memory_used_bytes = 0,
      gpu_memory_usage_percent = 0, gpu_utilization_percent = 0\<rparr>"

text \<open>\<^verbatim>\<open>if isinstance(name, bytes): name = name.decode('utf-8')\<close>.\<close>

definition decode_name :: "nvml_name \<Rightarrow> py_error + string" where
  "decode_name n =
     (case n of NameStr s \<Rightarrow> Inr s | NameBytes s \<Rightarrow> Inr s
      | NameBadBytes \<Rightarrow> Inl UnicodeDecodeError)"

text \<open>
  \<^verbatim>\<open>round((used / total) * 100, 2) if total > 0 else 0.0\<close>, the division
  raising on a zero divisor as Python's does.
\<close>

definition memory_usage_percent :: "int \<Rightarrow> int \<Rightarrow> py_error + real" where
  "memory_usage_percent mem_used mem_total =
     (if 0 < mem_total then
        (case py_truediv (of_int mem_used) (of_int mem_total) of
           Inl e \<Rightarrow> Inl e
         | Inr q \<Rightarrow> Inr (py_round (q * 100) 2))
      else Inr 0)"

text \<open>
  The body of the \<^verbatim>\<open>try\<close>. \<open>Inr None\<close>: no device, \<^verbatim>\<open>gpu_info\<close> is left as it
  was; \<open>Inr (Some g)\<close>: \<^verbatim>\<open>gpu_info\<close> is rebound to the new dict \<open>g\<close>.
\<close>

definition gpu_info_try :: "host \<Rightarrow> py_error + gpu_info option" where
  "gpu_info_try h =
     (case nvmlDeviceGetCount h of
        Inl e \<Rightarrow> Inl e
      | Inr device_count \<Rightarrow>
          if 0 < device_count then
            (case nvmlDeviceGetHandleByIndex h of
               Inl e \<Rightarrow> Inl e
             | Inr handle \<Rightarrow>
            (case nvmlDeviceGetName h of
               Inl e \<Rightarrow> Inl e
             | Inr raw_name \<Rightarrow>
            (case decode_name raw_name of
               Inl e \<Rightarrow> Inl e
             | Inr name \<Rightarrow>
            (case nvmlDeviceGetMemoryInfo h of
               Inl e \<Rightarrow> Inl e
             | Inr (mem_total, mem_used) \<Rightarrow>
            (case nvmlDeviceGetUtilizationRates h of
               Inl e \<Rightarrow> Inl e
             | Inr util_gpu \<Rightarrow>
            (case memory_usage_percent mem_used mem_total of
               Inl e \<Rightarrow> Inl e
             | Inr pct \<Rightarrow>
                 Inr (Some
                   \<lparr>gpu_available = True, gpu_name = Some name, gpu_model = Some name,
                    gpu_memory_total_bytes = mem_total, gpu_memory_used_bytes = mem_used,
                    gpu_memory_usage_percent = pct,
                    gpu_utilization_percent = of_int util_gpu\<rparr>)))))))
          else Inr None)"

definition get_gpu_info :: "host \<Rightarrow> gpu_info" where
  "get_gpu_info h =
     (if \<not> NVML_AVAILABLE h then gpu_default
      else (case gpu_info_try h of Inr (Some g) \<Rightarrow> g | _ \<Rightarrow> gpu_default))"

subsection \<open>\<^verbatim>\<open>get_npu_info\<close>\<close>

record npu_info =
  npu_available :: bool
  npu_name :: "string option"
  npu_model :: "string option"
  npu_utilization_percent :: real

definition npu_default :: npu_info where
  "npu_default =
     \<lparr>npu_available = False, npu_name = None, npu_model = None,
      npu_utilization_percent = 0\<rparr>"

definition npu_found :: "string \<Rightarrow> string \<Rightarrow> real \<Rightarrow> npu_info" where
  "npu_found name model load_val =
     \<lparr>npu_available = True, npu_name = Some name, npu_model = Some model,
      npu_utilization_percent = load_val\<rparr>"

definition rknpu_paths :: "string list" where
  "rknpu_paths =
     [''/sys/kernel/debug/rknpu/load'', ''/sys/class/devfreq/fdab0000.npu/load'']"

text \<open>
  The loop over \<^verbatim>\<open>rknpu_paths\<close> inside the \<^verbatim>\<open>try\<close>. The first path that exists is
  opened, read, stripped, freed of \<^verbatim>\<open>%\<close> and given to \<^verbatim>\<open>float\<close>; \<open>Inl\<close> is an
  exception (it leaves the loop), \<open>Inr (Some r)\<close> the \<^verbatim>\<open>return\<close>, \<open>Inr None\<close> a loop
  that ended with no path found. Python's \<^verbatim>\<open>float\<close> on a string is a parameter,
  \<open>None\<close> standing for its \<^verbatim>\<open>ValueError\<close>.
\<close>

fun rknpu_scan ::
  "(string \<Rightarrow> real option) \<Rightarrow> (string \<Rightarrow> file_state) \<Rightarrow> string list
     \<Rightarrow> py_error + npu_info option" where
  "rknpu_scan py_float files [] = Inr None"
| "rknpu_scan py_float files (path # rest) =
     (if path_exists files path then
        (case read_file files path of
           Inl e \<Rightarrow> Inl e
         | Inr txt \<Rightarrow>
             (case py_float (remove_percent (strip txt)) of
                None \<Rightarrow> Inl ValueError
              | Some load_val \<Rightarrow>
                  Inr (Some (npu_found ''Rockchip NPU'' ''RK3588/RK3568 NPU'' load_val))))
      else rknpu_scan py_float files rest)"

text \<open>Step 1, the Rockchip block: \<open>Some r\<close> when it returns \<open>r\<close>, \<open>None\<close> when it falls through.\<close>

definition rockchip_probe :: "(string \<Rightarrow> real option) \<Rightarrow> host \<Rightarrow> npu_info option" where
  "rockchip_probe py_float h =
     (if path_exists (fs h) ''/sys/class/devfreq'' \<or> path_exists (fs h) ''/dev/rknpu'' then
        (case rknpu_scan py_float (fs h) rknpu_paths of
           Inr (Some r) \<Rightarrow> Some r
         | _ \<Rightarrow>
             if path_exists (fs h) ''/dev/rknpu''
             then Some (npu_found ''Rockchip NPU'' ''RK35xx NPU'' 0)
             else None)
      else None)"

text \<open>Steps 2 and 3: each runs \<^verbatim>\<open>lsusb\<close> itself; a failed run is passed over.\<close>

definition coral_probe :: "host \<Rightarrow> npu_info option" where
  "coral_probe h =
     (case lsusb_coral h of
        Inl e \<Rightarrow> None
      | Inr stdout \<Rightarrow>
          if str_in ''1a6e:089a'' stdout \<or> str_in ''18d1:9302'' stdout
          then Some (npu_found ''Google Coral Edge TPU'' ''Edge TPU'' 0)
          else None)"

definition movidius_probe :: "host \<Rightarrow> npu_info option" where
  "movidius_probe h =
     (case lsusb_movidius h of
        Inl e \<Rightarrow> None
      | Inr stdout \<Rightarrow>
          if str_in ''03e7:2485'' stdout
          then Some (npu_found ''Intel Movidius NCS2'' ''Myriad X VPU'' 0)
          else None)"

definition get_npu_info :: "(string \<Rightarrow> real option) \<Rightarrow> host \<Rightarrow> npu_info" where
  "get_npu_info py_float h =
     (case rockchip_probe py_float h of
        Some r \<Rightarrow> r
      | None \<Rightarrow>
          (case coral_probe h of
             Some r \<Rightarrow> r
           | None \<Rightarrow>
               (case movidius_probe h of
                  Some r \<Rightarrow> r
                | None \<Rightarrow> npu_default)))"

text \<open>
  An instance of the \<^verbatim>\<open>float\<close> parameter for the examples: unsigned decimal integers
  such as \<^verbatim>\<open>10\<close>, everything else refused.
\<close>

definition digit_val :: "char \<Rightarrow> nat" where
  "digit_val c = of_char c - 48"

definition float_of_digits :: "string \<Rightarrow> real option" where
  "float_of_digits s =
     (if s \<noteq> [] \<and> list_all (\<lambda>c. c \<in> set ''0123456789'') s
      then Some (real (foldl (\<lambda>acc c. 10 * acc + digit_val c) 0 s))
      else None)"

subsection \<open>\<^verbatim>\<open>get_compute_info\<close>\<close>

record cpu_info =
  cpu_cores :: nat
  cpu_model :: string
  cpu_architecture :: string
  cpu_frequency_mhz :: real
  cpu_usage_percent :: real

record memory_info =
  memory_total_bytes :: int
  memory_available_bytes :: int
  memory_used_bytes :: int
  memory_usage_pct :: real

record disk_info =
  disk_type :: string
  disk_total_bytes :: int
  disk_available_bytes :: int
  disk_used_bytes :: int
  disk_usage_pct :: real

record compute_info =
  cpu :: cpu_info
  memory :: memory_info
  disk :: disk_info
  gpu :: gpu_info
  npu :: npu_info

definition get_compute_info :: "(string \<Rightarrow> real option) \<Rightarrow> host \<Rightarrow> compute_info" where
  "get_compute_info py_float h =
     (let mem = psutil_virtual_memory h; dsk = psutil_disk_usage h
      in \<lparr>cpu =
            \<lparr>cpu_cores = (case psutil_cpu_count h of Some n \<Rightarrow> n | None \<Rightarrow> 0),
             cpu_model = get_cpu_model h,
             cpu_architecture = platform_machine h,
             cpu_frequency_mhz = py_round (get_cpu_frequency h) 2,
             cpu_usage_percent = py_round (psutil_cpu_percent h) 2\<rparr>,
          memory =
            \<lparr>memory_total_bytes = usage_total mem,
             memory_available_bytes = usage_available mem,
             memory_used_bytes = usage_used mem,
             memory_usage_pct = py_round (usage_percent_raw mem) 2\<rparr>,
          disk =
            \<lparr>disk_type = get_disk_type h,
             disk_total_bytes = usage_total dsk,
             disk_available_bytes = usage_available dsk,
             disk_used_bytes = usage_used dsk,
             disk_usage_pct = py_round (usage_percent_raw dsk) 2\<rparr>,
          gpu = get_gpu_info h,
          npu = get_npu_info py_float h\<rparr>)"

section \<open>The exporter node\<close>

subsection \<open>Messages and the node's state\<close>

record BatteryState =
  percentage :: real
  voltage :: real

record PoseWithCovarianceStamped =
  position_x :: real
  position_y :: real

record Imu =
  linear_acceleration_x :: real

record Odometry =
  twist_linear_x :: real
  twist_angular_z :: real

text \<open>
  What the \<^verbatim>\<open>ranges\<close> attribute of the stored scan message can hold: the sequence of
  floats the message type declares, or, for a malformed message, a bare float or
  \<^verbatim>\<open>None\<close>. \<^verbatim>\<open>np.array\<close> turns the first into a one-dimensional array and the other
  two into zero-dimensional ones.
\<close>

datatype ranges_val = FloatSeq "real list" | FloatScalar real | RangesNone

record LaserScan =
  ranges :: ranges_val

record ExporterNode =
  bot :: string
  spec_wh :: real
  last_battery_msg :: "BatteryState option"
  last_pose_msg :: "PoseWithCovarianceStamped option"
  last_imu_msg :: "Imu option"
  last_scan_msg :: "LaserScan option"
  last_odom_msg :: "Odometry option"

definition battery_callback :: "ExporterNode \<Rightarrow> BatteryState \<Rightarrow> ExporterNode" where
  "battery_callback self msg = self\<lparr>last_battery_msg := Some msg\<rparr>"

definition pose_callback :: "ExporterNode \<Rightarrow> PoseWithCovarianceStamped \<Rightarrow> ExporterNode" where
  "pose_callback self msg = self\<lparr>last_pose_msg := Some msg\<rparr>"

definition imu_callback :: "ExporterNode \<Rightarrow> Imu \<Rightarrow> ExporterNode" where
  "imu_callback self msg = self\<lparr>last_imu_msg := Some msg\<rparr>"

definition scan_callback :: "ExporterNode \<Rightarrow> LaserScan \<Rightarrow> ExporterNode" where
  "scan_callback self msg = self\<lparr>last_scan_msg := Some msg\<rparr>"

definition odom_callback :: "ExporterNode \<Rightarrow> Odometry \<Rightarrow> ExporterNode" where
  "odom_callback self msg = self\<lparr>last_odom_msg := Some msg\<rparr>"

subsection \<open>Step 1 of \<^verbatim>\<open>publish_telemetry_callback\<close>: the battery\<close>

record battery_vars =
  ratio :: real
  pct_disp :: real
  wh :: real
  volt :: real

definition battery_step :: "ExporterNode \<Rightarrow> battery_vars" where
  "battery_step self =
     (case last_battery_msg self of
        Some msg \<Rightarrow>
          (let raw_pct = percentage msg;
               (ratio', pct_disp') =
                  (if raw_pct \<le> 1 then (raw_pct, raw_pct * 100)
                   else (raw_pct / 100, raw_pct))
           in \<lparr>ratio = ratio', pct_disp = pct_disp', wh = ratio' * spec_wh self,
               volt = voltage msg\<rparr>)
      | None \<Rightarrow> \<lparr>ratio = 0, pct_disp = 0, wh = 0, volt = 0\<rparr>)"

subsection \<open>Steps 2 and 3: pose and motion\<close>

definition pose_step :: "ExporterNode \<Rightarrow> real \<times> real" where
  "pose_step self =
     (case last_pose_msg self of
        Some msg \<Rightarrow> (position_x msg, position_y msg)
      | None \<Rightarrow> (0, 0))"

definition motion_step :: "ExporterNode \<Rightarrow> real \<times> real \<times> real" where
  "motion_step self =
     (let (linear_v, angular_v) =
            (case last_odom_msg self of
               Some msg \<Rightarrow> (twist_linear_x msg, twist_angular_z msg)
             | None \<Rightarrow> (0, 0));
          accel_x =
            (case last_imu_msg self of
               Some msg \<Rightarrow> linear_acceleration_x msg
             | None \<Rightarrow> 0)
      in (linear_v, angular_v, accel_x))"

subsection \<open>Step 4: the lidar summary\<close>

record scan_summary =
  min_dist :: real
  front_dist :: real

definition scan_summary_init :: scan_summary where
  "scan_summary_init = \<lparr>min_dist = -1, front_dist = -1\<rparr>"

text \<open>
  \<^verbatim>\<open>ranges[(ranges > 0.01) & (ranges < 3.5)]\<close>: on a one-dimensional array the
  elements inside the window, in order; on a zero-dimensional float array a
  one-element or empty array; on \<^verbatim>\<open>None\<close> the comparison raises.
\<close>

definition in_window :: "real \<Rightarrow> bool" where
  "in_window r = (0.01 < r \<and> r < 3.5)"

definition window_select :: "ranges_val \<Rightarrow> py_error + real list" where
  "window_select rv =
     (case rv of
        FloatSeq xs \<Rightarrow> Inr (filter in_window xs)
      | FloatScalar r \<Rightarrow> Inr (if in_window r then [r] else [])
      | RangesNone \<Rightarrow> Inl TypeError)"

text \<open>The mask \<^verbatim>\<open>front_cone > 0.01\<close>, element by element.\<close>

definition above_floor :: "real \<Rightarrow> bool" where
  "above_floor r = (0.01 < r)"

text \<open>\<^verbatim>\<open>len(ranges)\<close>: a zero-dimensional array has no length.\<close>

definition np_len :: "ranges_val \<Rightarrow> py_error + nat" where
  "np_len rv = (case rv of FloatSeq xs \<Rightarrow> Inr (length xs) | _ \<Rightarrow> Inl TypeError)"

text \<open>
  \<^verbatim>\<open>np.concatenate((ranges[:10], ranges[-10:]))\<close>: a zero-dimensional array cannot
  be sliced.
\<close>

definition front_cone_of :: "ranges_val \<Rightarrow> py_error + real list" where
  "front_cone_of rv =
     (case rv of
        FloatSeq xs \<Rightarrow> Inr (take 10 xs @ drop (length xs - 10) xs)
      | _ \<Rightarrow> Inl IndexError)"

text \<open>\<^verbatim>\<open>np.min\<close> raises on an empty array.\<close>

fun np_min :: "real list \<Rightarrow> py_error + real" where
  "np_min [] = Inl ValueError"
| "np_min (x # xs) = Inr (fold min xs x)"

text \<open>
  \<^verbatim>\<open>np.mean\<close> (on an empty array numpy returns NaN, which is outside the model; the
  source calls it on non-empty arrays only).
\<close>

definition np_mean :: "real list \<Rightarrow> real" where
  "np_mean xs = sum_list xs / real (length xs)"

text \<open>
  The body of the \<^verbatim>\<open>try\<close>, statement by statement. \<^verbatim>\<open>scan_summary\<close> is a dict
  updated in place, so the result is the dict as it stands when the body ends, together
  with the exception that ended it, if one did.
\<close>

definition lidar_try :: "ranges_val \<Rightarrow> scan_summary \<Rightarrow> scan_summary \<times> py_error option" where
  "lidar_try rv s0 =
     (case window_select rv of
        Inl e \<Rightarrow> (s0, Some e)
      | Inr valid_ranges \<Rightarrow>
          (case (if 0 < length valid_ranges
                 then map_sum id (\<lambda>m. s0\<lparr>min_dist := m\<rparr>) (np_min valid_ranges)
                 else Inr s0) of
             Inl e \<Rightarrow> (s0, Some e)
           | Inr s1 \<Rightarrow>
               (case np_len rv of
                  Inl e \<Rightarrow> (s1, Some e)
                | Inr n \<Rightarrow>
                    if 20 < n then
                      (case front_cone_of rv of
                         Inl e \<Rightarrow> (s1, Some e)
                       | Inr front_cone \<Rightarrow>
                           (let front_valid = filter above_floor front_cone
                            in if 0 < length front_valid
                               then (s1\<lparr>front_dist := np_mean front_valid\<rparr>, None)
                               else (s1, None)))
                    else (s1, None))))"

text \<open>\<^verbatim>\<open>except: pass\<close>: whatever was raised, the dict is used as it stands.\<close>

definition lidar_step :: "ExporterNode \<Rightarrow> scan_summary" where
  "lidar_step self =
     (case last_scan_msg self of
        Some msg \<Rightarrow> fst (lidar_try (ranges msg) scan_summary_init)
      | None \<Rightarrow> scan_summary_init)"

subsection \<open>The snapshot and its publication\<close>

record battery_block =
  battery_percentage :: real
  battery_voltage :: real
  battery_wh :: real

record pose_block =
  pose_x :: real
  pose_y :: real

record motion_block =
  linear_velocity :: real
  angular_velocity :: real
  acceleration_x :: real

record env_block =
  obstacle_min :: real
  obstacle_front :: real

record telemetry =
  ts :: nat
  telemetry_bot :: string
  telemetry_type :: string
  battery :: battery_block
  pose :: pose_block
  motion :: motion_block
  env :: env_block
  compute :: compute_info

definition build_data ::
  "(string \<Rightarrow> real option) \<Rightarrow> ExporterNode \<Rightarrow> host \<Rightarrow> nat \<Rightarrow> telemetry" where
  "build_data py_float self h time_ns =
     (let b = battery_step self;
          (x_pos, y_pos) = pose_step self;
          (linear_v, angular_v, accel_x) = motion_step self;
          summary = lidar_step self;
          info = get_compute_info py_float h
      in \<lparr>ts = time_ns, telemetry_bot = bot self, telemetry_type = ''telemetry'',
          battery =
            \<lparr>battery_percentage = py_round (ratio b) 4,
             battery_voltage = py_round (volt b) 2,
             battery_wh = py_round (wh b) 2\<rparr>,
          pose = \<lparr>pose_x = py_round x_pos 3, pose_y = py_round y_pos 3\<rparr>,
          motion =
            \<lparr>linear_velocity = py_round linear_v 3,
             angular_velocity = py_round angular_v 3,
             acceleration_x = py_round accel_x 3\<rparr>,
          env =
            \<lparr>obstacle_min = py_round (min_dist summary) 3,
             obstacle_front = py_round (front_dist summary) 3\<rparr>,
          compute = info\<rparr>)"

text \<open>
  One tick. The snapshot is built, then handed to \<^verbatim>\<open>basic_publish\<close>; when that
  raises, the error is logged and the snapshot is dropped. The log lines themselves are
  not modelled.
\<close>

record tick_result =
  snapshot :: telemetry
  delivered :: "telemetry list"
  publish_error_logged :: bool

definition publish_telemetry_callback ::
  "(string \<Rightarrow> real option) \<Rightarrow> ExporterNode \<Rightarrow> host \<Rightarrow> nat \<Rightarrow> bool \<Rightarrow> tick_result" where
  "publish_telemetry_callback py_float self h time_ns basic_publish_raises =
     (let data = build_data py_float self h time_ns
      in \<lparr>snapshot = data,
          delivered = (if basic_publish_raises then [] else [data]),
          publish_error_logged = basic_publish_raises\<rparr>)"

subsection \<open>The node as \<^verbatim>\<open>__init__\<close> leaves it, and a host with nothing to find\<close>

text \<open>
  After \<^verbatim>\<open>__init__\<close> every sensor slot is \<^verbatim>\<open>None\<close>; the capacity is the default of
  \<^verbatim>\<open>BATTERY_SPEC_WH\<close>.
\<close>

definition fresh_node :: ExporterNode where
  "fresh_node =
     \<lparr>bot = ''turtlebot'', spec_wh = 19.98, last_battery_msg = None,
      last_pose_msg = None, last_imu_msg = None, last_scan_msg = None,
      last_odom_msg = None\<rparr>"

definition no_usage :: usage where
  "no_usage =
     \<lparr>usage_total = 0, usage_available = 0, usage_used = 0, usage_percent_raw = 0\<rparr>"

definition bare_host :: host where
  "bare_host =
     \<lparr>fs = (\<lambda>p. Absent), proc_cpuinfo = Inl OSError, platform_processor = [],
      platform_machine = ''aarch64'', psutil_cpu_freq = Inr None,
      psutil_cpu_count = Some 4, psutil_cpu_percent = 0,
      psutil_virtual_memory = no_usage, psutil_disk_usage = no_usage,
      psutil_disk_partitions = Inr [], NVML_AVAILABLE = False,
      nvmlDeviceGetCount = Inl NVMLError, nvmlDeviceGetHandleByIndex = Inl NVMLError,
      nvmlDeviceGetName = Inl NVMLError, nvmlDeviceGetMemoryInfo = Inl NVMLError,
      nvmlDeviceGetUtilizationRates = Inl NVMLError,
      lsusb_coral = Inl SubprocessError, lsusb_movidius = Inl SubprocessError\<rparr>"

section \<open>The specification's tables\<close>

text \<open>
  The disk classification as the specification words it, a table over the device path
  and the value of the rotational flag, the first matching row winning: an SD/eMMC
  marker, an NVMe marker, a SATA/SCSI device name with flag \<open>1\<close> or with another value,
  and \<open>Unknown\<close> for everything else and for a flag that cannot be read.
\<close>

definition classify_disk_spec :: "string \<Rightarrow> string option \<Rightarrow> string" where
  "classify_disk_spec path flag =
     (if str_in ''mmcblk'' path then ''SD/eMMC''
      else if str_in ''nvme'' path then ''NVMe SSD''
      else if startswith path ''/dev/sd'' then
        (case flag of
           Some v \<Rightarrow> if v = ''1'' then ''HDD'' else ''SSD''
         | None \<Rightarrow> ''Unknown'')
      else ''Unknown'')"

text \<open>The flag of a device: the stripped text of its rotational file, if it can be read.\<close>

definition rotational_flag :: "(string \<Rightarrow> file_state) \<Rightarrow> string \<Rightarrow> string option" where
  "rotational_flag files path =
     (case files (rotational_path path) of Content txt \<Rightarrow> Some (strip txt) | _ \<Rightarrow> None)"

section \<open>Rounding\<close>

lemma py_round_minus_one: "py_round (- 1) n = - 1"
  by (simp add: py_round_def round_half_even_def Let_def)

lemma py_round_zero: "py_round 0 n = 0"
  by (simp add: py_round_def round_half_even_def Let_def)

section \<open>The battery block\<close>

text \<open>
  Claim C3, scenario A. With the battery reading \<open>{percentage: 0.73, voltage: 16.1}\<close>
  and the capacity \<open>19.98\<close>, the battery block of the snapshot is
  \<open>{percentage: 0.73, voltage: 16.1, wh: 14.59}\<close>: the energy is
  \<open>0.73 * 19.98 = 14.5854\<close>, which rounds to \<open>14.59\<close> at two decimals, not to the
  \<open>14.58\<close> of the scenario.
\<close>

theorem scenario_A_battery_block:
  "battery (build_data py_float
      (self\<lparr>spec_wh := 19.98,
            last_battery_msg := Some \<lparr>percentage = 0.73, voltage = 16.1\<rparr>\<rparr>)
      h time_ns)
   = \<lparr>battery_percentage = 0.73, battery_voltage = 16.1, battery_wh = 14.59\<rparr>"
  by (simp add: build_data_def battery_step_def Let_def split_beta py_round_def
      round_half_even_def)

theorem scenario_A_battery_block_witness:
  "spec_wh fresh_node = 19.98 \<and>
   battery_wh (battery (build_data float_of_digits
      (fresh_node\<lparr>spec_wh := 19.98,
                  last_battery_msg := Some \<lparr>percentage = 0.73, voltage = 16.1\<rparr>\<rparr>)
      bare_host 0)) = 14.59"
  using scenario_A_battery_block [of float_of_digits fresh_node bare_host 0]
  by (simp add: fresh_node_def)

theorem scenario_A_wh_counterexample:
  "battery (build_data float_of_digits
      (fresh_node\<lparr>last_battery_msg := Some \<lparr>percentage = 0.73, voltage = 16.1\<rparr>\<rparr>)
      bare_host 0)
   \<noteq> \<lparr>battery_percentage = 0.73, battery_voltage = 16.10, battery_wh = 14.58\<rparr>"
  by (simp add: build_data_def battery_step_def Let_def split_beta py_round_def
      round_half_even_def fresh_node_def)

text \<open>
  Claim C1, battery normalisation. For a stored battery reading with raw percentage
  \<open>p\<close>: if \<open>p \<le> 1\<close> the ratio is \<open>p\<close>, if \<open>p > 1\<close> it is \<open>p / 100\<close>; the energy is the
  ratio times the configured capacity; the snapshot's percentage is the ratio rounded
  to four decimals. The ratio lies in \<open>[0, 1]\<close> exactly when \<open>0 \<le> p \<le> 100\<close>: the
  code does not clamp, so a raw percentage above \<open>100\<close> gives a ratio above \<open>1\<close>.
\<close>

theorem battery_normalization:
  "last_battery_msg self = Some msg \<Longrightarrow>
     (percentage msg \<le> 1 \<longrightarrow> ratio (battery_step self) = percentage msg) \<and>
     (1 < percentage msg \<longrightarrow> ratio (battery_step self) = percentage msg / 100) \<and>
     wh (battery_step self) = ratio (battery_step self) * spec_wh self \<and>
     ((0 \<le> ratio (battery_step self) \<and> ratio (battery_step self) \<le> 1)
        = (0 \<le> percentage msg \<and> percentage msg \<le> 100)) \<and>
     battery_percentage (battery (build_data py_float self h time_ns))
        = py_round (ratio (battery_step self)) 4"
  by (auto simp add: battery_step_def build_data_def Let_def split_beta)

theorem battery_normalization_witness:
  "ratio (battery_step (fresh_node\<lparr>last_battery_msg := Some \<lparr>percentage = 73, voltage = 16.1\<rparr>\<rparr>)) = 0.73 \<and>
   wh (battery_step (fresh_node\<lparr>last_battery_msg := Some \<lparr>percentage = 73, voltage = 16.1\<rparr>\<rparr>)) = 0.73 * 19.98"
  using battery_normalization [of "fresh_node\<lparr>last_battery_msg := Some \<lparr>percentage = 73, voltage = 16.1\<rparr>\<rparr>"
      "\<lparr>percentage = 73, voltage = 16.1\<rparr>" float_of_digits bare_host 0]
  by (simp add: fresh_node_def)

theorem battery_ratio_counterexample:
  "(1::real) < 150 \<and>
   ratio (battery_step (fresh_node\<lparr>last_battery_msg := Some \<lparr>percentage = 150, voltage = 16.1\<rparr>\<rparr>)) = 150 / 100 \<and>
   \<not> ratio (battery_step (fresh_node\<lparr>last_battery_msg := Some \<lparr>percentage = 150, voltage = 16.1\<rparr>\<rparr>)) \<le> 1"
  by (simp add: battery_step_def Let_def)

section \<open>A tick with no sensor data\<close>

text \<open>
  Claim C9. When all five sensor slots are empty, the tick still builds one snapshot,
  whose battery block is \<open>0/0/0\<close>, pose \<open>0/0\<close>, motion \<open>0/0/0\<close> and environment
  distances \<open>-1/-1\<close>; that one snapshot is what is handed to the broker (and nothing
  when \<^verbatim>\<open>basic_publish\<close> raises). The \<^verbatim>\<open>psutil\<close> queries of
  \<^const>\<open>get_compute_info\<close> are taken to return, as the source takes them.
\<close>

theorem all_absent_defaults:
  "last_battery_msg self = None \<Longrightarrow> last_pose_msg self = None \<Longrightarrow>
   last_imu_msg self = None \<Longrightarrow> last_scan_msg self = None \<Longrightarrow>
   last_odom_msg self = None \<Longrightarrow>
   r = publish_telemetry_callback py_float self h time_ns basic_publish_raises \<Longrightarrow>
     battery (snapshot r) = \<lparr>battery_percentage = 0, battery_voltage = 0, battery_wh = 0\<rparr> \<and>
     pose (snapshot r) = \<lparr>pose_x = 0, pose_y = 0\<rparr> \<and>
     motion (snapshot r) = \<lparr>linear_velocity = 0, angular_velocity = 0, acceleration_x = 0\<rparr> \<and>
     env (snapshot r) = \<lparr>obstacle_min = - 1, obstacle_front = - 1\<rparr> \<and>
     delivered r = (if basic_publish_raises then [] else [snapshot r])"
  by (simp add: publish_telemetry_callback_def build_data_def battery_step_def pose_step_def
      motion_step_def lidar_step_def scan_summary_init_def Let_def py_round_zero py_round_minus_one)

theorem all_absent_defaults_witness:
  "env (snapshot (publish_telemetry_callback float_of_digits fresh_node bare_host 0 False))
     = \<lparr>obstacle_min = - 1, obstacle_front = - 1\<rparr> \<and>
   length (delivered (publish_telemetry_callback float_of_digits fresh_node bare_host 0 False)) = 1"
  using all_absent_defaults [of fresh_node _ float_of_digits bare_host 0 False, OF _ _ _ _ _ refl]
  by (simp add: fresh_node_def)

section \<open>The lidar summary\<close>

subsection \<open>Rounding inside the window, minimum and mean\<close>

lemma round_half_even_range:
  "\<lfloor>y\<rfloor> \<le> round_half_even y \<and> round_half_even y \<le> \<lfloor>y\<rfloor> + 1"
  by (simp add: round_half_even_def Let_def)

lemma py_round_window:
  assumes "0.01 < x" "x < 3.5"
  shows "0.01 \<le> py_round x 3 \<and> py_round x 3 \<le> 3.5"
proof -
  let ?y = "x * 10 ^ 3"
  have lo: "10 \<le> \<lfloor>?y\<rfloor>" using assms(1) by (simp add: le_floor_iff)
  have hi: "\<lfloor>?y\<rfloor> \<le> 3499" using assms(2) by (simp add: floor_le_iff)
  have "10 \<le> round_half_even ?y" "round_half_even ?y \<le> 3500"
    using round_half_even_range [of ?y] lo hi by linarith+
  then have "(10::real) \<le> of_int (round_half_even ?y)" "of_int (round_half_even ?y) \<le> (3500::real)"
    by linarith+
  then show ?thesis by (simp add: py_round_def)
qed

lemma np_min_Min: "xs \<noteq> [] \<Longrightarrow> np_min xs = Inr (Min (set xs))"
proof (cases xs)
  case Nil
  assume "xs \<noteq> []"
  with Nil show ?thesis by simp
next
  case (Cons a list)
  have "Min (set (a # list)) = fold min list a" by (rule Min.set_eq_fold)
  with Cons show ?thesis by (simp del: set_simps)
qed

lemma Min_filter_window:
  assumes "filter in_window xs \<noteq> []"
  shows "Min (set (filter in_window xs)) \<in> set xs \<and> in_window (Min (set (filter in_window xs)))"
proof -
  have "Min (set (filter in_window xs)) \<in> set (filter in_window xs)"
  proof (rule Min_in)
    show "finite (set (filter in_window xs))" by (rule finite_set)
    show "set (filter in_window xs) \<noteq> {}" using assms by (simp only: set_empty not_False_eq_True)
  qed
  then show ?thesis by simp
qed

lemma sum_list_gt:
  "xs \<noteq> [] \<Longrightarrow> list_all (\<lambda>r. c < r) xs \<Longrightarrow> c * real (length xs) < sum_list xs"
proof (induction xs)
  case Nil then show ?case by simp
next
  case (Cons x xs)
  show ?case
  proof (cases "xs = []")
    case True with Cons.prems show ?thesis by simp
  next
    case False
    with Cons have "c * real (length xs) < sum_list xs" by simp
    moreover have "c < x" using Cons.prems by simp
    ultimately show ?thesis by (simp add: algebra_simps)
  qed
qed

lemma np_mean_gt:
  assumes "xs \<noteq> []" "list_all (\<lambda>r. c < r) xs"
  shows "c < np_mean xs"
proof -
  have "0 < real (length xs)" using assms(1) by simp
  moreover have "c * real (length xs) < sum_list xs" using assms by (rule sum_list_gt)
  ultimately show ?thesis by (simp add: np_mean_def pos_less_divide_eq)
qed

lemma list_all_filter_self: "list_all P (filter P xs)"
  by (simp add: list_all_iff)

subsection \<open>The \<^verbatim>\<open>try\<close> body on each kind of \<^verbatim>\<open>ranges\<close>\<close>

lemma lidar_try_seq:
  "lidar_try (FloatSeq xs) scan_summary_init =
     (\<lparr>min_dist = (if filter in_window xs = [] then - 1 else Min (set (filter in_window xs))),
       front_dist =
         (if 20 < length xs \<and> filter above_floor (take 10 xs @ drop (length xs - 10) xs) \<noteq> []
          then np_mean (filter above_floor (take 10 xs @ drop (length xs - 10) xs))
          else - 1)\<rparr>, None)"
proof -
  let ?v = "filter in_window xs"
  define fv where "fv = filter above_floor (take 10 xs @ drop (length xs - 10) xs)"
  define md where "md = (if ?v = [] then - 1 else Min (set ?v))"
  have m: "(if 0 < length ?v
            then map_sum id (\<lambda>m. scan_summary_init\<lparr>min_dist := m\<rparr>) (np_min ?v)
            else Inr scan_summary_init)
         = Inr \<lparr>min_dist = md, front_dist = - 1\<rparr>"
    by (cases "?v = []") (simp_all add: np_min_Min scan_summary_init_def md_def)
  have "lidar_try (FloatSeq xs) scan_summary_init =
      (if 20 < length xs
       then (if 0 < length fv then (\<lparr>min_dist = md, front_dist = - 1\<rparr>\<lparr>front_dist := np_mean fv\<rparr>, None)
             else (\<lparr>min_dist = md, front_dist = - 1\<rparr>, None))
       else (\<lparr>min_dist = md, front_dist = - 1\<rparr>, None))"
    unfolding lidar_try_def window_select_def np_len_def front_cone_of_def
    by (simp only: ranges_val.case sum.case m Let_def fv_def)
  also have "\<dots> = (\<lparr>min_dist = md, front_dist = (if 20 < length xs \<and> fv \<noteq> [] then np_mean fv else - 1)\<rparr>, None)"
    by (cases "fv = []") simp_all
  finally show ?thesis unfolding fv_def md_def .
qed

lemma lidar_try_scalar:
  "lidar_try (FloatScalar r) scan_summary_init =
     (\<lparr>min_dist = (if in_window r then r else - 1), front_dist = - 1\<rparr>, Some TypeError)"
  by (simp add: lidar_try_def window_select_def np_len_def scan_summary_init_def)

lemma lidar_try_none:
  "lidar_try RangesNone scan_summary_init = (scan_summary_init, Some TypeError)"
  by (simp add: lidar_try_def window_select_def)

lemma lidar_try_seq_returns:
  "snd (lidar_try (FloatSeq xs) scan_summary_init) = None"
  by (simp add: lidar_try_seq)

lemma lidar_step_seq:
  "last_scan_msg self = Some msg \<Longrightarrow> ranges msg = FloatSeq xs \<Longrightarrow>
   lidar_step self =
     \<lparr>min_dist = (if filter in_window xs = [] then - 1 else Min (set (filter in_window xs))),
      front_dist =
         (if 20 < length xs \<and> filter above_floor (take 10 xs @ drop (length xs - 10) xs) \<noteq> []
          then np_mean (filter above_floor (take 10 xs @ drop (length xs - 10) xs))
          else - 1)\<rparr>"
  by (simp only: lidar_step_def option.case lidar_try_seq fst_conv)

lemma env_of_build_data:
  "env (build_data py_float self h time_ns) =
     \<lparr>obstacle_min = py_round (min_dist (lidar_step self)) 3,
      obstacle_front = py_round (front_dist (lidar_step self)) 3\<rparr>"
  by (simp add: build_data_def Let_def split_beta)

lemma above_floor_eq: "above_floor = (\<lambda>r. 0.01 < r)"
  by (simp add: fun_eq_iff above_floor_def)

lemma in_window_eq: "in_window = (\<lambda>r. 0.01 < r \<and> r < 3.5)"
  by (simp add: fun_eq_iff in_window_def)

lemma py_round_above_floor:
  assumes "0.01 < x"
  shows "0.01 \<le> py_round x 3"
proof -
  let ?y = "x * 10 ^ 3"
  have "10 \<le> \<lfloor>?y\<rfloor>" using assms by (simp add: le_floor_iff)
  then have "10 \<le> round_half_even ?y"
    using round_half_even_range [of ?y] by linarith
  then have "(10::real) \<le> of_int (round_half_even ?y)" by linarith
  then show ?thesis by (simp add: py_round_def)
qed

lemma lidar_step_scan_callback:
  "lidar_step (scan_callback self \<lparr>ranges = FloatSeq ys\<rparr>) =
     \<lparr>min_dist = (if filter in_window ys = [] then - 1 else Min (set (filter in_window ys))),
      front_dist =
         (if 20 < length ys \<and> filter above_floor (take 10 ys @ drop (length ys - 10) ys) \<noteq> []
          then np_mean (filter above_floor (take 10 ys @ drop (length ys - 10) ys))
          else - 1)\<rparr>"
  by (rule lidar_step_seq [where msg = "\<lparr>ranges = FloatSeq ys\<rparr>"])
     (simp_all add: scan_callback_def)

subsection \<open>The claims about the summary\<close>

text \<open>
  Claim C8. For a scan of \<open>n \<le> 20\<close> ranges the front distance is \<open>-1\<close>, in the summary
  and in the snapshot. For \<open>n > 20\<close> the summary's value is the arithmetic mean of the
  elements above \<open>0.01\<close> among the first ten and the last ten, or \<open>-1\<close> when there is
  none; the snapshot field is that mean rounded to three decimals, so it differs from
  the mean whenever the mean has more than three decimals (\<open>5/3\<close> is published as
  \<open>1.667\<close>).
\<close>

theorem front_distance_mean:
  assumes "last_scan_msg self = Some msg" and "ranges msg = FloatSeq xs"
  shows "(length xs \<le> 20 \<longrightarrow>
            front_dist (lidar_step self) = - 1 \<and>
            obstacle_front (env (build_data py_float self h time_ns)) = - 1) \<and>
         (20 < length xs \<longrightarrow>
            front_dist (lidar_step self) =
              (let front_valid = filter (\<lambda>r. 0.01 < r) (take 10 xs @ drop (length xs - 10) xs)
               in if front_valid = [] then - 1
                  else sum_list front_valid / real (length front_valid)) \<and>
            obstacle_front (env (build_data py_float self h time_ns)) =
              (let front_valid = filter (\<lambda>r. 0.01 < r) (take 10 xs @ drop (length xs - 10) xs)
               in if front_valid = [] then - 1
                  else py_round (sum_list front_valid / real (length front_valid)) 3))"
proof -
  note s = lidar_step_seq [OF assms]
  let ?fv = "filter above_floor (take 10 xs @ drop (length xs - 10) xs)"
  have a: "length xs \<le> 20 \<longrightarrow> front_dist (lidar_step self) = - 1"
    by (simp only: s) simp
  have b: "20 < length xs \<longrightarrow>
            front_dist (lidar_step self) =
              (if ?fv = [] then - 1 else sum_list ?fv / real (length ?fv))"
    by (simp only: s np_mean_def) simp
  have c: "obstacle_front (env (build_data py_float self h time_ns))
           = py_round (front_dist (lidar_step self)) 3"
    by (simp add: env_of_build_data)
  have main: "(length xs \<le> 20 \<longrightarrow>
            front_dist (lidar_step self) = - 1 \<and>
            obstacle_front (env (build_data py_float self h time_ns)) = - 1) \<and>
         (20 < length xs \<longrightarrow>
            front_dist (lidar_step self) =
              (if ?fv = [] then - 1 else sum_list ?fv / real (length ?fv)) \<and>
            obstacle_front (env (build_data py_float self h time_ns)) =
              (if ?fv = [] then - 1 else py_round (sum_list ?fv / real (length ?fv)) 3))"
    using a b by (simp add: c py_round_minus_one)
  then show ?thesis unfolding Let_def above_floor_eq .
qed

theorem front_distance_mean_witness:
  "obstacle_front (env (build_data float_of_digits (fresh_node\<lparr>last_scan_msg :=
      Some \<lparr>ranges = FloatSeq [2, 2, 2, 2, 2, 2, 2, 2, 0.005, 0, 9, 9, 9, 9, 9,
                               2, 2, 2, 2, 2, 2, 2, 2, 2, 0.01]\<rparr>\<rparr>) bare_host 0)) = 2 \<and>
   obstacle_front (env (build_data float_of_digits (fresh_node\<lparr>last_scan_msg :=
      Some \<lparr>ranges = FloatSeq [2, 2]\<rparr>\<rparr>) bare_host 0)) = - 1"
  using front_distance_mean [of "fresh_node\<lparr>last_scan_msg :=
      Some \<lparr>ranges = FloatSeq [2, 2, 2, 2, 2, 2, 2, 2, 0.005, 0, 9, 9, 9, 9, 9,
                               2, 2, 2, 2, 2, 2, 2, 2, 2, 0.01]\<rparr>\<rparr>"
      "\<lparr>ranges = FloatSeq [2, 2, 2, 2, 2, 2, 2, 2, 0.005, 0, 9, 9, 9, 9, 9,
                               2, 2, 2, 2, 2, 2, 2, 2, 2, 0.01]\<rparr>"
      "[2, 2, 2, 2, 2, 2, 2, 2, 0.005, 0, 9, 9, 9, 9, 9,
                               2, 2, 2, 2, 2, 2, 2, 2, 2, 0.01]" float_of_digits bare_host 0]
    front_distance_mean [of "fresh_node\<lparr>last_scan_msg := Some \<lparr>ranges = FloatSeq [2, 2]\<rparr>\<rparr>"
      "\<lparr>ranges = FloatSeq [2, 2]\<rparr>" "[2, 2]" float_of_digits bare_host 0]
  by (simp add: py_round_def round_half_even_def Let_def)

theorem front_distance_rounded_counterexample:
  "obstacle_front (env (build_data float_of_digits (fresh_node\<lparr>last_scan_msg :=
      Some \<lparr>ranges = FloatSeq [1, 2, 2, 0, 0, 0, 0, 0, 0, 0, 0, 0, 0, 0, 0,
                               0, 0, 0, 0, 0, 0]\<rparr>\<rparr>) bare_host 0)) = 1.667 \<and>
   sum_list (filter (\<lambda>r. 0.01 < r)
       (take 10 [1, 2, 2, 0, 0, 0, 0, 0, 0, 0, 0, 0, 0, 0, 0, 0, 0, 0, 0, 0, 0 :: real] @
        drop (length [1, 2, 2, 0, 0, 0, 0, 0, 0, 0, 0, 0, 0, 0, 0, 0, 0, 0, 0, 0, 0 :: real] - 10)
          [1, 2, 2, 0, 0, 0, 0, 0, 0, 0, 0, 0, 0, 0, 0, 0, 0, 0, 0, 0, 0]))
     / real (length (filter (\<lambda>r. 0.01 < r)
       (take 10 [1, 2, 2, 0, 0, 0, 0, 0, 0, 0, 0, 0, 0, 0, 0, 0, 0, 0, 0, 0, 0 :: real] @
        drop (length [1, 2, 2, 0, 0, 0, 0, 0, 0, 0, 0, 0, 0, 0, 0, 0, 0, 0, 0, 0, 0 :: real] - 10)
          [1, 2, 2, 0, 0, 0, 0, 0, 0, 0, 0, 0, 0, 0, 0, 0, 0, 0, 0, 0, 0]))) = 5 / 3"
  by (simp add: env_of_build_data lidar_step_def lidar_try_def window_select_def np_len_def
      front_cone_of_def in_window_def above_floor_def np_mean_def scan_summary_init_def
      py_round_def round_half_even_def Let_def)

text \<open>
  Claim C5. The minimum distance of the summary is \<open>-1\<close> when no range lies strictly
  between \<open>0.01\<close> and \<open>3.5\<close>, and otherwise the least such range, itself strictly
  inside the window. The published value is that result rounded to three decimals, so
  it is \<open>-1\<close> or lies in the closed interval from \<open>0.01\<close> to \<open>3.5\<close>: rounding can
  reach either end, as \<open>0.0104\<close> rounds to \<open>0.01\<close>.
\<close>

theorem obstacle_min_range:
  assumes "last_scan_msg self = Some msg" and "ranges msg = FloatSeq xs"
  shows "(filter in_window xs = [] \<longrightarrow> min_dist (lidar_step self) = - 1) \<and>
         (filter in_window xs \<noteq> [] \<longrightarrow>
            min_dist (lidar_step self) = Min (set (filter in_window xs)) \<and>
            0.01 < min_dist (lidar_step self) \<and> min_dist (lidar_step self) < 3.5) \<and>
         obstacle_min (env (build_data py_float self h time_ns))
           = py_round (min_dist (lidar_step self)) 3 \<and>
         (obstacle_min (env (build_data py_float self h time_ns)) = - 1 \<or>
          0.01 \<le> obstacle_min (env (build_data py_float self h time_ns)) \<and>
          obstacle_min (env (build_data py_float self h time_ns)) \<le> 3.5)"
proof -
  note s = lidar_step_seq [OF assms]
  have pub: "obstacle_min (env (build_data py_float self h time_ns))
           = py_round (min_dist (lidar_step self)) 3"
    by (simp add: env_of_build_data)
  show ?thesis
  proof (cases "filter in_window xs = []")
    case True
    then have "min_dist (lidar_step self) = - 1" by (simp only: s) simp
    with True pub show ?thesis by (simp add: py_round_minus_one)
  next
    case False
    then have m: "min_dist (lidar_step self) = Min (set (filter in_window xs))"
      by (simp only: s) simp
    from Min_filter_window [OF False] m
    have w: "0.01 < min_dist (lidar_step self)" "min_dist (lidar_step self) < 3.5"
      by (simp_all add: in_window_def)
    from py_round_window [OF w] pub False m w show ?thesis by simp
  qed
qed

theorem obstacle_min_range_witness:
  "min_dist (lidar_step (fresh_node\<lparr>last_scan_msg :=
      Some \<lparr>ranges = FloatSeq [5, 1.25, 0, 0.5]\<rparr>\<rparr>)) = 0.5"
  using obstacle_min_range [of "fresh_node\<lparr>last_scan_msg :=
      Some \<lparr>ranges = FloatSeq [5, 1.25, 0, 0.5]\<rparr>\<rparr>" "\<lparr>ranges = FloatSeq [5, 1.25, 0, 0.5]\<rparr>"
      "[5, 1.25, 0, 0.5]" float_of_digits bare_host 0]
  by (simp add: in_window_def)

theorem obstacle_min_published_counterexample:
  "obstacle_min (env (build_data float_of_digits
      (fresh_node\<lparr>last_scan_msg := Some \<lparr>ranges = FloatSeq [0.0104]\<rparr>\<rparr>) bare_host 0)) = 0.01 \<and>
   \<not> 0.01 < obstacle_min (env (build_data float_of_digits
      (fresh_node\<lparr>last_scan_msg := Some \<lparr>ranges = FloatSeq [0.0104]\<rparr>\<rparr>) bare_host 0))"
  by (simp add: env_of_build_data lidar_step_def lidar_try_def window_select_def in_window_def
      np_len_def scan_summary_init_def py_round_def round_half_even_def Let_def)

text \<open>
  Claim C4. Each of the two snapshot fields is the summary's value rounded to three
  decimals. The minimum distance of the summary is \<open>-1\<close> or one of the readings strictly
  between \<open>0.01\<close> and \<open>3.5\<close>, and the published minimum is then \<open>-1\<close> or lies between
  \<open>0.01\<close> and \<open>3.5\<close>, ends included. The front distance of the summary is \<open>-1\<close> or the mean
  of the front-cone readings above \<open>0.01\<close>, hence above \<open>0.01\<close> itself, and the published
  front distance is then \<open>-1\<close> or at least \<open>0.01\<close>. Each field depends on the scan through
  those readings alone: two scans with the same readings strictly between \<open>0.01\<close> and
  \<open>3.5\<close> publish the same minimum, and two scans (both longer than twenty, or both not)
  with the same front-cone readings above \<open>0.01\<close> publish the same front distance. The
  front distance has no upper bound on its readings: those of \<open>3.5\<close> and more enter the
  mean.
\<close>

theorem lidar_values_from_valid_readings:
  assumes "last_scan_msg self = Some msg" and "ranges msg = FloatSeq xs"
  shows "obstacle_min (env (build_data py_float self h time_ns))
           = py_round (min_dist (lidar_step self)) 3 \<and>
         obstacle_front (env (build_data py_float self h time_ns))
           = py_round (front_dist (lidar_step self)) 3 \<and>
         (min_dist (lidar_step self) = - 1 \<and>
            obstacle_min (env (build_data py_float self h time_ns)) = - 1 \<or>
          min_dist (lidar_step self) \<in> set xs \<and>
            0.01 < min_dist (lidar_step self) \<and> min_dist (lidar_step self) < 3.5 \<and>
            0.01 \<le> obstacle_min (env (build_data py_float self h time_ns)) \<and>
            obstacle_min (env (build_data py_float self h time_ns)) \<le> 3.5) \<and>
         (front_dist (lidar_step self) = - 1 \<and>
            obstacle_front (env (build_data py_float self h time_ns)) = - 1 \<or>
          filter (\<lambda>r. 0.01 < r) (take 10 xs @ drop (length xs - 10) xs) \<noteq> [] \<and>
            front_dist (lidar_step self)
              = sum_list (filter (\<lambda>r. 0.01 < r) (take 10 xs @ drop (length xs - 10) xs))
                / real (length (filter (\<lambda>r. 0.01 < r)
                    (take 10 xs @ drop (length xs - 10) xs))) \<and>
            0.01 < front_dist (lidar_step self) \<and>
            0.01 \<le> obstacle_front (env (build_data py_float self h time_ns))) \<and>
         (\<forall>ys. filter (\<lambda>r. 0.01 < r \<and> r < 3.5) ys = filter (\<lambda>r. 0.01 < r \<and> r < 3.5) xs \<longrightarrow>
            obstacle_min (env (build_data py_float
                (scan_callback self \<lparr>ranges = FloatSeq ys\<rparr>) h time_ns))
              = obstacle_min (env (build_data py_float self h time_ns))) \<and>
         (\<forall>ys. (20 < length ys) = (20 < length xs) \<and>
               filter (\<lambda>r. 0.01 < r) (take 10 ys @ drop (length ys - 10) ys)
                 = filter (\<lambda>r. 0.01 < r) (take 10 xs @ drop (length xs - 10) xs) \<longrightarrow>
            obstacle_front (env (build_data py_float
                (scan_callback self \<lparr>ranges = FloatSeq ys\<rparr>) h time_ns))
              = obstacle_front (env (build_data py_float self h time_ns)))"
proof -
  note s = lidar_step_seq [OF assms]
  let ?fv = "filter above_floor (take 10 xs @ drop (length xs - 10) xs)"
  let ?pmin = "obstacle_min (env (build_data py_float self h time_ns))"
  let ?pfront = "obstacle_front (env (build_data py_float self h time_ns))"
  have pm: "?pmin = py_round (min_dist (lidar_step self)) 3"
    and pf: "?pfront = py_round (front_dist (lidar_step self)) 3"
    by (simp_all add: env_of_build_data)
  have a: "min_dist (lidar_step self) = - 1 \<and> ?pmin = - 1 \<or>
          min_dist (lidar_step self) \<in> set xs \<and>
            0.01 < min_dist (lidar_step self) \<and> min_dist (lidar_step self) < 3.5 \<and>
            0.01 \<le> ?pmin \<and> ?pmin \<le> 3.5"
  proof (cases "filter in_window xs = []")
    case True
    then have "min_dist (lidar_step self) = - 1" by (simp only: s) simp
    then show ?thesis by (simp add: pm py_round_minus_one)
  next
    case False
    then have m: "min_dist (lidar_step self) = Min (set (filter in_window xs))"
      by (simp only: s) simp
    with Min_filter_window [OF False]
    have w: "min_dist (lidar_step self) \<in> set xs"
      "0.01 < min_dist (lidar_step self)" "min_dist (lidar_step self) < 3.5"
      by (simp_all add: in_window_def)
    from py_round_window [OF w(2,3)] w show ?thesis by (simp add: pm)
  qed
  have b: "front_dist (lidar_step self) = - 1 \<and> ?pfront = - 1 \<or>
            ?fv \<noteq> [] \<and> front_dist (lidar_step self) = sum_list ?fv / real (length ?fv) \<and>
            0.01 < front_dist (lidar_step self) \<and> 0.01 \<le> ?pfront"
  proof (cases "20 < length xs \<and> ?fv \<noteq> []")
    case False
    then have "front_dist (lidar_step self) = - 1" by (simp only: s) auto
    then show ?thesis by (simp add: pf py_round_minus_one)
  next
    case True
    then have f: "front_dist (lidar_step self) = np_mean ?fv" by (simp only: s) simp
    have "list_all (\<lambda>r. 0.01 < r) ?fv"
      using list_all_filter_self [of above_floor] by (simp add: above_floor_def [abs_def])
    with True have g: "0.01 < np_mean ?fv" by (intro np_mean_gt) simp_all
    from py_round_above_floor [OF g] f g True show ?thesis
      by (simp add: pf np_mean_def)
  qed
  have c: "\<forall>ys. filter in_window ys = filter in_window xs \<longrightarrow>
            obstacle_min (env (build_data py_float
                (scan_callback self \<lparr>ranges = FloatSeq ys\<rparr>) h time_ns)) = ?pmin"
    by (simp add: env_of_build_data lidar_step_scan_callback s)
  have d: "\<forall>ys. (20 < length ys) = (20 < length xs) \<and>
               filter above_floor (take 10 ys @ drop (length ys - 10) ys) = ?fv \<longrightarrow>
            obstacle_front (env (build_data py_float
                (scan_callback self \<lparr>ranges = FloatSeq ys\<rparr>) h time_ns)) = ?pfront"
  proof (intro allI impI)
    fix ys
    assume e: "(20 < length ys) = (20 < length xs) \<and>
               filter above_floor (take 10 ys @ drop (length ys - 10) ys) = ?fv"
    have "front_dist (lidar_step (scan_callback self \<lparr>ranges = FloatSeq ys\<rparr>)) =
          (if 20 < length ys \<and> filter above_floor (take 10 ys @ drop (length ys - 10) ys) \<noteq> []
           then np_mean (filter above_floor (take 10 ys @ drop (length ys - 10) ys))
           else - 1)"
      by (simp only: lidar_step_scan_callback scan_summary.simps)
    also have "\<dots> = (if 20 < length xs \<and> ?fv \<noteq> [] then np_mean ?fv else - 1)"
      by (simp only: e)
    also have "\<dots> = front_dist (lidar_step self)"
      by (simp only: s scan_summary.simps)
    finally show "obstacle_front (env (build_data py_float
                (scan_callback self \<lparr>ranges = FloatSeq ys\<rparr>) h time_ns)) = ?pfront"
      by (simp add: env_of_build_data)
  qed
  from pm pf a b c d
  have "?pmin = py_round (min_dist (lidar_step self)) 3 \<and>
        ?pfront = py_round (front_dist (lidar_step self)) 3 \<and>
        (min_dist (lidar_step self) = - 1 \<and> ?pmin = - 1 \<or>
          min_dist (lidar_step self) \<in> set xs \<and>
            0.01 < min_dist (lidar_step self) \<and> min_dist (lidar_step self) < 3.5 \<and>
            0.01 \<le> ?pmin \<and> ?pmin \<le> 3.5) \<and>
        (front_dist (lidar_step self) = - 1 \<and> ?pfront = - 1 \<or>
            ?fv \<noteq> [] \<and> front_dist (lidar_step self) = sum_list ?fv / real (length ?fv) \<and>
            0.01 < front_dist (lidar_step self) \<and> 0.01 \<le> ?pfront) \<and>
        (\<forall>ys. filter in_window ys = filter in_window xs \<longrightarrow>
            obstacle_min (env (build_data py_float
                (scan_callback self \<lparr>ranges = FloatSeq ys\<rparr>) h time_ns)) = ?pmin) \<and>
        (\<forall>ys. (20 < length ys) = (20 < length xs) \<and>
               filter above_floor (take 10 ys @ drop (length ys - 10) ys) = ?fv \<longrightarrow>
            obstacle_front (env (build_data py_float
                (scan_callback self \<lparr>ranges = FloatSeq ys\<rparr>) h time_ns)) = ?pfront)"
    by blast
  then show ?thesis unfolding above_floor_eq in_window_eq .
qed

theorem lidar_values_witness:
  "obstacle_min (env (build_data float_of_digits
      (scan_callback
         (fresh_node\<lparr>last_scan_msg := Some \<lparr>ranges = FloatSeq
            [0.5, 7, 0.005, 1.25, 0, 0, 0, 0, 0, 0, 0.2, 0, 0, 0, 0, 0, 0, 0, 0, 0, 0]\<rparr>\<rparr>)
         \<lparr>ranges = FloatSeq
            [0.5, 7, 0, 1.25, - 3, 0, 0, 0, 0, 0, 0.2, 0, 0, 0, 0, 0, 0, 0, 0, 0.01, 0]\<rparr>)
      bare_host 0))
     = obstacle_min (env (build_data float_of_digits
      (fresh_node\<lparr>last_scan_msg := Some \<lparr>ranges = FloatSeq
            [0.5, 7, 0.005, 1.25, 0, 0, 0, 0, 0, 0, 0.2, 0, 0, 0, 0, 0, 0, 0, 0, 0, 0]\<rparr>\<rparr>)
      bare_host 0)) \<and>
   obstacle_front (env (build_data float_of_digits
      (scan_callback
         (fresh_node\<lparr>last_scan_msg := Some \<lparr>ranges = FloatSeq
            [0.5, 7, 0.005, 1.25, 0, 0, 0, 0, 0, 0, 0.2, 0, 0, 0, 0, 0, 0, 0, 0, 0, 0]\<rparr>\<rparr>)
         \<lparr>ranges = FloatSeq
            [0.5, 7, 0, 1.25, - 3, 0, 0, 0, 0, 0, 0.2, 0, 0, 0, 0, 0, 0, 0, 0, 0.01, 0]\<rparr>)
      bare_host 0))
     = obstacle_front (env (build_data float_of_digits
      (fresh_node\<lparr>last_scan_msg := Some \<lparr>ranges = FloatSeq
            [0.5, 7, 0.005, 1.25, 0, 0, 0, 0, 0, 0, 0.2, 0, 0, 0, 0, 0, 0, 0, 0, 0, 0]\<rparr>\<rparr>)
      bare_host 0))"
proof -
  let ?xs = "[0.5, 7, 0.005, 1.25, 0, 0, 0, 0, 0, 0, 0.2, 0, 0, 0, 0, 0, 0, 0, 0, 0, 0 :: real]"
  let ?ys = "[0.5, 7, 0, 1.25, - 3, 0, 0, 0, 0, 0, 0.2, 0, 0, 0, 0, 0, 0, 0, 0, 0.01, 0 :: real]"
  have v: "filter (\<lambda>r. 0.01 < r \<and> r < 3.5) ?ys = filter (\<lambda>r. 0.01 < r \<and> r < 3.5) ?xs"
    by simp
  have f: "(20 < length ?ys) = (20 < length ?xs) \<and>
           filter (\<lambda>r. 0.01 < r) (take 10 ?ys @ drop (length ?ys - 10) ?ys)
             = filter (\<lambda>r. 0.01 < r) (take 10 ?xs @ drop (length ?xs - 10) ?xs)"
    by simp
  have h1: "last_scan_msg (fresh_node\<lparr>last_scan_msg := Some \<lparr>ranges = FloatSeq ?xs\<rparr>\<rparr>)
      = Some \<lparr>ranges = FloatSeq ?xs\<rparr>"
    by simp
  have h2: "ranges \<lparr>ranges = FloatSeq ?xs\<rparr> = FloatSeq ?xs"
    by simp
  note t = lidar_values_from_valid_readings [OF h1 h2, of float_of_digits bare_host 0]
  note t5 = t [THEN conjunct2, THEN conjunct2, THEN conjunct2, THEN conjunct2]
  from t5 [THEN conjunct1, rule_format, OF v] t5 [THEN conjunct2, rule_format, OF f]
  show ?thesis by (rule conjI)
qed

theorem front_distance_far_readings_counterexample:
  "obstacle_front (env (build_data float_of_digits (fresh_node\<lparr>last_scan_msg :=
      Some \<lparr>ranges = FloatSeq [5, 5, 5, 5, 5, 5, 5, 5, 5, 5, 5, 5, 5, 5, 5,
                               5, 5, 5, 5, 5, 5]\<rparr>\<rparr>) bare_host 0)) = 5 \<and>
   list_all (\<lambda>r. 3.5 \<le> r) [5, 5, 5, 5, 5, 5, 5, 5, 5, 5, 5, 5, 5, 5, 5,
                               5, 5, 5, 5, 5, 5 :: real] \<and>
   filter (\<lambda>r. 0.01 < r \<and> r < 3.5) [5, 5, 5, 5, 5, 5, 5, 5, 5, 5, 5, 5, 5, 5, 5,
                               5, 5, 5, 5, 5, 5 :: real] = []"
  by (simp add: env_of_build_data lidar_step_def lidar_try_def window_select_def np_len_def
      front_cone_of_def in_window_def above_floor_def np_mean_def scan_summary_init_def
      py_round_def round_half_even_def Let_def)

section \<open>The GPU probe\<close>

lemma memory_usage_percent_returns:
  "memory_usage_percent mem_used mem_total =
     Inr (if 0 < mem_total then py_round (of_int mem_used / of_int mem_total * 100) 2 else 0)"
  by (simp add: memory_usage_percent_def py_truediv_def)

text \<open>
  Claim C10. \<^const>\<open>get_gpu_info\<close> never raises and returns either the whole
  unavailable record (not available, no name, no model, every memory and utilisation
  field \<open>0\<close>) or a record every field of which comes from a successful query. It
  returns the unavailable record whenever NVML is unavailable, the device count fails
  or is not positive, or any query (the decoding of the name included) fails, and the
  populated record whenever all of them succeed. The memory percentage never raises:
  the division is made only for a positive total, and the field is \<open>0\<close> otherwise.
\<close>

theorem gpu_info_all_or_nothing:
  "(get_gpu_info h =
      \<lparr>gpu_available = False, gpu_name = None, gpu_model = None,
       gpu_memory_total_bytes = 0, gpu_memory_used_bytes = 0,
       gpu_memory_usage_percent = 0, gpu_utilization_percent = 0\<rparr> \<or>
     (\<exists>device_count raw_name name mem_total mem_used util_gpu.
        NVML_AVAILABLE h \<and> nvmlDeviceGetCount h = Inr device_count \<and> 0 < device_count \<and>
        nvmlDeviceGetHandleByIndex h = Inr () \<and>
        nvmlDeviceGetName h = Inr raw_name \<and>
        (raw_name = NameStr name \<or> raw_name = NameBytes name) \<and>
        nvmlDeviceGetMemoryInfo h = Inr (mem_total, mem_used) \<and>
        nvmlDeviceGetUtilizationRates h = Inr util_gpu \<and>
        get_gpu_info h =
          \<lparr>gpu_available = True, gpu_name = Some name, gpu_model = Some name,
           gpu_memory_total_bytes = mem_total, gpu_memory_used_bytes = mem_used,
           gpu_memory_usage_percent =
             (if 0 < mem_total then py_round (of_int mem_used / of_int mem_total * 100) 2
              else 0),
           gpu_utilization_percent = of_int util_gpu\<rparr>)) \<and>
   (\<not> NVML_AVAILABLE h \<or> (\<exists>e. nvmlDeviceGetCount h = Inl e) \<or>
    (\<exists>n. nvmlDeviceGetCount h = Inr n \<and> n \<le> 0) \<or>
    (\<exists>e. nvmlDeviceGetHandleByIndex h = Inl e) \<or> (\<exists>e. nvmlDeviceGetName h = Inl e) \<or>
    nvmlDeviceGetName h = Inr NameBadBytes \<or>
    (\<exists>e. nvmlDeviceGetMemoryInfo h = Inl e) \<or>
    (\<exists>e. nvmlDeviceGetUtilizationRates h = Inl e)
      \<longrightarrow> get_gpu_info h =
            \<lparr>gpu_available = False, gpu_name = None, gpu_model = None,
             gpu_memory_total_bytes = 0, gpu_memory_used_bytes = 0,
             gpu_memory_usage_percent = 0, gpu_utilization_percent = 0\<rparr>) \<and>
   (NVML_AVAILABLE h \<and> nvmlDeviceGetCount h = Inr n' \<and> 0 < n' \<and>
    nvmlDeviceGetHandleByIndex h = Inr () \<and> nvmlDeviceGetName h = Inr raw' \<and>
    (raw' = NameStr name' \<or> raw' = NameBytes name') \<and>
    nvmlDeviceGetMemoryInfo h = Inr (total', used') \<and>
    nvmlDeviceGetUtilizationRates h = Inr util'
      \<longrightarrow> get_gpu_info h =
            \<lparr>gpu_available = True, gpu_name = Some name', gpu_model = Some name',
             gpu_memory_total_bytes = total', gpu_memory_used_bytes = used',
             gpu_memory_usage_percent =
               (if 0 < total' then py_round (of_int used' / of_int total' * 100) 2 else 0),
             gpu_utilization_percent = of_int util'\<rparr>) \<and>
   (\<exists>v. memory_usage_percent used'' total'' = Inr v \<and> (total'' \<le> 0 \<longrightarrow> v = 0))"
proof (intro conjI)
  show "get_gpu_info h =
      \<lparr>gpu_available = False, gpu_name = None, gpu_model = None,
       gpu_memory_total_bytes = 0, gpu_memory_used_bytes = 0,
       gpu_memory_usage_percent = 0, gpu_utilization_percent = 0\<rparr> \<or>
     (\<exists>device_count raw_name name mem_total mem_used util_gpu.
        NVML_AVAILABLE h \<and> nvmlDeviceGetCount h = Inr device_count \<and> 0 < device_count \<and>
        nvmlDeviceGetHandleByIndex h = Inr () \<and>
        nvmlDeviceGetName h = Inr raw_name \<and>
        (raw_name = NameStr name \<or> raw_name = NameBytes name) \<and>
        nvmlDeviceGetMemoryInfo h = Inr (mem_total, mem_used) \<and>
        nvmlDeviceGetUtilizationRates h = Inr util_gpu \<and>
        get_gpu_info h =
          \<lparr>gpu_available = True, gpu_name = Some name, gpu_model = Some name,
           gpu_memory_total_bytes = mem_total, gpu_memory_used_bytes = mem_used,
           gpu_memory_usage_percent =
             (if 0 < mem_total then py_round (of_int mem_used / of_int mem_total * 100) 2
              else 0),
           gpu_utilization_percent = of_int util_gpu\<rparr>)"
    by (auto simp add: get_gpu_info_def gpu_info_try_def memory_usage_percent_returns
        gpu_default_def decode_name_def
        split: sum.splits option.splits if_splits nvml_name.splits)
next
  show "\<not> NVML_AVAILABLE h \<or> (\<exists>e. nvmlDeviceGetCount h = Inl e) \<or>
    (\<exists>n. nvmlDeviceGetCount h = Inr n \<and> n \<le> 0) \<or>
    (\<exists>e. nvmlDeviceGetHandleByIndex h = Inl e) \<or> (\<exists>e. nvmlDeviceGetName h = Inl e) \<or>
    nvmlDeviceGetName h = Inr NameBadBytes \<or>
    (\<exists>e. nvmlDeviceGetMemoryInfo h = Inl e) \<or>
    (\<exists>e. nvmlDeviceGetUtilizationRates h = Inl e)
      \<longrightarrow> get_gpu_info h =
            \<lparr>gpu_available = False, gpu_name = None, gpu_model = None,
             gpu_memory_total_bytes = 0, gpu_memory_used_bytes = 0,
             gpu_memory_usage_percent = 0, gpu_utilization_percent = 0\<rparr>"
    by (auto simp add: get_gpu_info_def gpu_info_try_def decode_name_def gpu_default_def
        split: sum.splits option.splits if_splits)
next
  show "NVML_AVAILABLE h \<and> nvmlDeviceGetCount h = Inr n' \<and> 0 < n' \<and>
    nvmlDeviceGetHandleByIndex h = Inr () \<and> nvmlDeviceGetName h = Inr raw' \<and>
    (raw' = NameStr name' \<or> raw' = NameBytes name') \<and>
    nvmlDeviceGetMemoryInfo h = Inr (total', used') \<and>
    nvmlDeviceGetUtilizationRates h = Inr util'
      \<longrightarrow> get_gpu_info h =
            \<lparr>gpu_available = True, gpu_name = Some name', gpu_model = Some name',
             gpu_memory_total_bytes = total', gpu_memory_used_bytes = used',
             gpu_memory_usage_percent =
               (if 0 < total' then py_round (of_int used' / of_int total' * 100) 2 else 0),
             gpu_utilization_percent = of_int util'\<rparr>"
    by (auto simp add: get_gpu_info_def gpu_info_try_def memory_usage_percent_returns
        decode_name_def)
next
  show "\<exists>v. memory_usage_percent used'' total'' = Inr v \<and> (total'' \<le> 0 \<longrightarrow> v = 0)"
    by (simp add: memory_usage_percent_returns)
qed

theorem gpu_info_all_or_nothing_witness:
  "get_gpu_info (bare_host\<lparr>NVML_AVAILABLE := True, nvmlDeviceGetCount := Inr 1,
       nvmlDeviceGetHandleByIndex := Inr (), nvmlDeviceGetName := Inr (NameBytes ''Orin''),
       nvmlDeviceGetMemoryInfo := Inr (0, 0), nvmlDeviceGetUtilizationRates := Inr 37\<rparr>)
     = \<lparr>gpu_available = True, gpu_name = Some ''Orin'', gpu_model = Some ''Orin'',
        gpu_memory_total_bytes = 0, gpu_memory_used_bytes = 0,
        gpu_memory_usage_percent = 0, gpu_utilization_percent = 37\<rparr> \<and>
   get_gpu_info (bare_host\<lparr>NVML_AVAILABLE := True, nvmlDeviceGetCount := Inr 1,
       nvmlDeviceGetHandleByIndex := Inr (), nvmlDeviceGetName := Inr (NameStr ''Orin''),
       nvmlDeviceGetMemoryInfo := Inr (8, 2), nvmlDeviceGetUtilizationRates := Inr 37\<rparr>)
     = \<lparr>gpu_available = True, gpu_name = Some ''Orin'', gpu_model = Some ''Orin'',
        gpu_memory_total_bytes = 8, gpu_memory_used_bytes = 2,
        gpu_memory_usage_percent = 25, gpu_utilization_percent = 37\<rparr> \<and>
   get_gpu_info (bare_host\<lparr>NVML_AVAILABLE := True, nvmlDeviceGetCount := Inr 1,
       nvmlDeviceGetHandleByIndex := Inr (), nvmlDeviceGetName := Inr NameBadBytes,
       nvmlDeviceGetMemoryInfo := Inr (8, 2), nvmlDeviceGetUtilizationRates := Inr 37\<rparr>)
     = \<lparr>gpu_available = False, gpu_name = None, gpu_model = None,
        gpu_memory_total_bytes = 0, gpu_memory_used_bytes = 0,
        gpu_memory_usage_percent = 0, gpu_utilization_percent = 0\<rparr> \<and>
   get_gpu_info (bare_host\<lparr>NVML_AVAILABLE := False, nvmlDeviceGetCount := Inr 1,
       nvmlDeviceGetHandleByIndex := Inr (), nvmlDeviceGetName := Inr (NameStr ''Orin''),
       nvmlDeviceGetMemoryInfo := Inr (8, 2), nvmlDeviceGetUtilizationRates := Inr 37\<rparr>)
     = \<lparr>gpu_available = False, gpu_name = None, gpu_model = None,
        gpu_memory_total_bytes = 0, gpu_memory_used_bytes = 0,
        gpu_memory_usage_percent = 0, gpu_utilization_percent = 0\<rparr>"
  using gpu_info_all_or_nothing [of "bare_host\<lparr>NVML_AVAILABLE := True,
       nvmlDeviceGetCount := Inr 1,
       nvmlDeviceGetHandleByIndex := Inr (), nvmlDeviceGetName := Inr (NameBytes ''Orin''),
       nvmlDeviceGetMemoryInfo := Inr (0, 0), nvmlDeviceGetUtilizationRates := Inr 37\<rparr>"
       1 "NameBytes ''Orin''" "''Orin''" 0 0 37]
    gpu_info_all_or_nothing [of "bare_host\<lparr>NVML_AVAILABLE := True,
       nvmlDeviceGetCount := Inr 1,
       nvmlDeviceGetHandleByIndex := Inr (), nvmlDeviceGetName := Inr (NameStr ''Orin''),
       nvmlDeviceGetMemoryInfo := Inr (8, 2), nvmlDeviceGetUtilizationRates := Inr 37\<rparr>"
       1 "NameStr ''Orin''" "''Orin''" 8 2 37]
    gpu_info_all_or_nothing [of "bare_host\<lparr>NVML_AVAILABLE := True, nvmlDeviceGetCount := Inr 1,
       nvmlDeviceGetHandleByIndex := Inr (), nvmlDeviceGetName := Inr NameBadBytes,
       nvmlDeviceGetMemoryInfo := Inr (8, 2), nvmlDeviceGetUtilizationRates := Inr 37\<rparr>"]
    gpu_info_all_or_nothing [of "bare_host\<lparr>NVML_AVAILABLE := False, nvmlDeviceGetCount := Inr 1,
       nvmlDeviceGetHandleByIndex := Inr (), nvmlDeviceGetName := Inr (NameStr ''Orin''),
       nvmlDeviceGetMemoryInfo := Inr (8, 2), nvmlDeviceGetUtilizationRates := Inr 37\<rparr>"]
  by (simp add: py_round_def round_half_even_def Let_def)

section \<open>The disk and NPU probes\<close>

subsection \<open>Substring tests\<close>

lemma startswith_iff: "startswith s p \<longleftrightarrow> (\<exists>post. s = p @ post)"
proof
  assume "startswith s p"
  then have "s = p @ drop (length p) s"
    by (metis append_take_drop_id startswith_def)
  then show "\<exists>post. s = p @ post" ..
next
  assume "\<exists>post. s = p @ post"
  then show "startswith s p" by (auto simp add: startswith_def)
qed

lemma str_in_iff: "str_in sub s \<longleftrightarrow> (\<exists>pre post. s = pre @ sub @ post)"
proof (induction s)
  case Nil
  show ?case by auto
next
  case (Cons c cs)
  show ?case
  proof
    assume "str_in sub (c # cs)"
    then consider "startswith (c # cs) sub" | "str_in sub cs" by auto
    then show "\<exists>pre post. c # cs = pre @ sub @ post"
    proof cases
      case 1
      then obtain post where "c # cs = sub @ post" by (auto simp add: startswith_iff)
      then have "c # cs = [] @ sub @ post" by simp
      then show ?thesis by blast
    next
      case 2
      with Cons.IH obtain pre post where "cs = pre @ sub @ post" by blast
      then have "c # cs = (c # pre) @ sub @ post" by simp
      then show ?thesis by blast
    qed
  next
    assume "\<exists>pre post. c # cs = pre @ sub @ post"
    then obtain pre post where e: "c # cs = pre @ sub @ post" by blast
    show "str_in sub (c # cs)"
    proof (cases pre)
      case Nil
      with e have "startswith (c # cs) sub" by (auto simp add: startswith_iff)
      then show ?thesis by simp
    next
      case (Cons a pre')
      with e have "cs = pre' @ sub @ post" by simp
      with Cons.IH have "str_in sub cs" by blast
      then show ?thesis by simp
    qed
  qed
qed

subsection \<open>Disk type\<close>

lemma classify_disk_spec_labels:
  "classify_disk_spec path flag \<in> set [''SD/eMMC'', ''NVMe SSD'', ''HDD'', ''SSD'', ''Unknown'']"
  by (simp add: classify_disk_spec_def split: option.splits)

text \<open>
  Claim C6. \<^const>\<open>get_disk_type\<close> never raises and is the specification's table applied
  to the device of the root mount and the value of its rotational flag, rows tried in
  order: a path containing \<open>mmcblk\<close> gives \<open>SD/eMMC\<close>; else one containing \<open>nvme\<close> gives
  \<open>NVMe SSD\<close>; else one starting with \<open>/dev/sd\<close> gives \<open>HDD\<close> for the flag \<open>1\<close> and \<open>SSD\<close>
  for any other value; everything else, a flag file that is missing or cannot be read,
  no root mount and a failing partition query give \<open>Unknown\<close>. The result is always one
  of the five labels.
\<close>

theorem disk_type_table:
  "get_disk_type h =
     (case psutil_disk_partitions h of
        Inl e \<Rightarrow> ''Unknown''
      | Inr parts \<Rightarrow>
          (case find_root_part parts of
             None \<Rightarrow> ''Unknown''
           | Some root_part \<Rightarrow>
               classify_disk_spec root_part (rotational_flag (fs h) root_part))) \<and>
   get_disk_type h \<in> set [''SD/eMMC'', ''NVMe SSD'', ''HDD'', ''SSD'', ''Unknown'']"
proof -
  have eq: "get_disk_type h =
     (case psutil_disk_partitions h of
        Inl e \<Rightarrow> ''Unknown''
      | Inr parts \<Rightarrow>
          (case find_root_part parts of
             None \<Rightarrow> ''Unknown''
           | Some root_part \<Rightarrow>
               classify_disk_spec root_part (rotational_flag (fs h) root_part)))"
    by (auto simp add: get_disk_type_def disk_type_try_def classify_disk_spec_def
        rotational_flag_def path_exists_def read_file_def startswith_def
        split: sum.splits option.splits file_state.splits)
  have "get_disk_type h \<in> set [''SD/eMMC'', ''NVMe SSD'', ''HDD'', ''SSD'', ''Unknown'']"
    unfolding eq using classify_disk_spec_labels
    by (simp split: sum.splits option.splits)
  with eq show ?thesis by simp
qed

theorem disk_type_table_witness:
  "get_disk_type (bare_host\<lparr>
      psutil_disk_partitions := Inr [\<lparr>device = ''/dev/sda1'', mountpoint = ''/boot''\<rparr>,
                                     \<lparr>device = ''/dev/sda2'', mountpoint = ''/''\<rparr>],
      fs := (\<lambda>p. if p = ''/sys/block/sda/queue/rotational'' then Content ''1'' else Absent)\<rparr>)
     = ''HDD'' \<and>
   get_disk_type (bare_host\<lparr>
      psutil_disk_partitions := Inr [\<lparr>device = ''/dev/mmcblk0p2'', mountpoint = ''/''\<rparr>]\<rparr>)
     = ''SD/eMMC'' \<and>
   get_disk_type (bare_host\<lparr>psutil_disk_partitions := Inl OSError\<rparr>) = ''Unknown''"
  using disk_type_table [of "bare_host\<lparr>
      psutil_disk_partitions := Inr [\<lparr>device = ''/dev/sda1'', mountpoint = ''/boot''\<rparr>,
                                     \<lparr>device = ''/dev/sda2'', mountpoint = ''/''\<rparr>],
      fs := (\<lambda>p. if p = ''/sys/block/sda/queue/rotational'' then Content ''1'' else Absent)\<rparr>"]
    disk_type_table [of "bare_host\<lparr>
      psutil_disk_partitions := Inr [\<lparr>device = ''/dev/mmcblk0p2'', mountpoint = ''/''\<rparr>]\<rparr>"]
    disk_type_table [of "bare_host\<lparr>psutil_disk_partitions := Inl OSError\<rparr>"]
  by (simp add: classify_disk_spec_def rotational_flag_def rotational_path_def basename_def
      rstrip_def strip_def py_isspace_def startswith_def)

subsection \<open>NPU detection\<close>

lemma get_npu_info_rockchip:
  "rockchip_probe py_float h = Some r \<Longrightarrow> get_npu_info py_float h = r"
  by (simp add: get_npu_info_def)

lemma rockchip_probe_usb_independent:
  "rockchip_probe py_float (h\<lparr>lsusb_coral := a, lsusb_movidius := b\<rparr>) = rockchip_probe py_float h"
  by (simp add: rockchip_probe_def)

lemma get_npu_info_usb:
  "rockchip_probe py_float h = None \<Longrightarrow>
   get_npu_info py_float h =
     (if \<exists>out. lsusb_coral h = Inr out \<and> (str_in ''1a6e:089a'' out \<or> str_in ''18d1:9302'' out)
      then npu_found ''Google Coral Edge TPU'' ''Edge TPU'' 0
      else if \<exists>out. lsusb_movidius h = Inr out \<and> str_in ''03e7:2485'' out
      then npu_found ''Intel Movidius NCS2'' ''Myriad X VPU'' 0
      else npu_default)"
  by (auto simp add: get_npu_info_def coral_probe_def movidius_probe_def split: sum.splits)

lemma float_of_digits_10: "float_of_digits ''10'' = Some 10"
  by (simp add: float_of_digits_def digit_val_def)

lemma rknpu_scan_cases:
  "rknpu_scan py_float files rknpu_paths =
     (case files ''/sys/kernel/debug/rknpu/load'' of
        Content txt \<Rightarrow>
          (case py_float (remove_percent (strip txt)) of
             Some v \<Rightarrow> Inr (Some (npu_found ''Rockchip NPU'' ''RK3588/RK3568 NPU'' v))
           | None \<Rightarrow> Inl ValueError)
      | Unreadable \<Rightarrow> Inl OSError
      | Absent \<Rightarrow>
          (case files ''/sys/class/devfreq/fdab0000.npu/load'' of
             Content txt \<Rightarrow>
               (case py_float (remove_percent (strip txt)) of
                  Some v \<Rightarrow> Inr (Some (npu_found ''Rockchip NPU'' ''RK3588/RK3568 NPU'' v))
                | None \<Rightarrow> Inl ValueError)
           | Unreadable \<Rightarrow> Inl OSError
           | Absent \<Rightarrow> Inr None))"
  by (simp add: rknpu_paths_def path_exists_def read_file_def
      split: file_state.splits option.splits)

lemma rockchip_probe_load:
  assumes "fs h ''/sys/class/devfreq'' \<noteq> Absent \<or> fs h ''/dev/rknpu'' \<noteq> Absent"
    and "fs h ''/sys/kernel/debug/rknpu/load'' = Content txt \<or>
         fs h ''/sys/kernel/debug/rknpu/load'' = Absent \<and>
         fs h ''/sys/class/devfreq/fdab0000.npu/load'' = Content txt"
    and "py_float (remove_percent (strip txt)) = Some v"
  shows "rockchip_probe py_float h
           = Some (npu_found ''Rockchip NPU'' ''RK3588/RK3568 NPU'' v)"
  using assms by (auto simp add: rockchip_probe_def rknpu_scan_cases path_exists_def)

lemma rknpu_scan_no_load:
  assumes "fs h ''/sys/kernel/debug/rknpu/load'' = Unreadable \<or>
     (\<exists>t. fs h ''/sys/kernel/debug/rknpu/load'' = Content t \<and>
          py_float (remove_percent (strip t)) = None) \<or>
     fs h ''/sys/kernel/debug/rknpu/load'' = Absent \<and>
       (fs h ''/sys/class/devfreq/fdab0000.npu/load'' = Absent \<or>
        fs h ''/sys/class/devfreq/fdab0000.npu/load'' = Unreadable \<or>
        (\<exists>t. fs h ''/sys/class/devfreq/fdab0000.npu/load'' = Content t \<and>
             py_float (remove_percent (strip t)) = None))"
  shows "\<forall>r. rknpu_scan py_float (fs h) rknpu_paths \<noteq> Inr (Some r)"
  using assms by (auto simp add: rknpu_scan_cases)

lemma rockchip_probe_no_load_device:
  assumes "fs h ''/dev/rknpu'' \<noteq> Absent"
    and "\<forall>r. rknpu_scan py_float (fs h) rknpu_paths \<noteq> Inr (Some r)"
  shows "rockchip_probe py_float h = Some (npu_found ''Rockchip NPU'' ''RK35xx NPU'' 0)"
  using assms
  by (auto simp add: rockchip_probe_def path_exists_def split: sum.splits option.splits)

lemma rockchip_probe_nothing:
  assumes "fs h ''/dev/rknpu'' = Absent"
    and "fs h ''/sys/class/devfreq'' = Absent \<or>
         (\<forall>r. rknpu_scan py_float (fs h) rknpu_paths \<noteq> Inr (Some r))"
  shows "rockchip_probe py_float h = None"
  using assms
  by (auto simp add: rockchip_probe_def path_exists_def split: sum.splits option.splits)

text \<open>
  Claim C7. The Rockchip step is entered only when \<open>/sys/class/devfreq\<close> or
  \<open>/dev/rknpu\<close> exists. Then, if the first load file that exists can be read and its
  text (stripped, without \<open>%\<close>) parses as a number, the result is available, named
  \<open>Rockchip NPU\<close>, with that number as utilisation, whatever \<^verbatim>\<open>lsusb\<close> prints. If
  \<open>/dev/rknpu\<close> exists and no load was obtained (the first existing load file cannot be
  read or parsed, the second one is then not tried; or neither exists), the result is
  available, named \<open>Rockchip NPU\<close>, with utilisation \<open>0\<close>, again whatever \<^verbatim>\<open>lsusb\<close>
  prints. The USB signatures decide only when \<open>/dev/rknpu\<close> is absent and either
  \<open>/sys/class/devfreq\<close> is absent too or no load was obtained: Coral first, then
  Movidius, each available with utilisation \<open>0\<close>, and with neither the result is not
  available, with no name and utilisation \<open>0\<close>. So a readable load file on a host with
  neither \<open>/sys/class/devfreq\<close> nor \<open>/dev/rknpu\<close> does not give the Rockchip priority
  over a USB accelerator.
\<close>

theorem npu_detection_order:
  "((fs h ''/sys/class/devfreq'' \<noteq> Absent \<or> fs h ''/dev/rknpu'' \<noteq> Absent) \<and>
    (fs h ''/sys/kernel/debug/rknpu/load'' = Content load_str \<or>
     fs h ''/sys/kernel/debug/rknpu/load'' = Absent \<and>
     fs h ''/sys/class/devfreq/fdab0000.npu/load'' = Content load_str) \<and>
    py_float (remove_percent (strip load_str)) = Some v
      \<longrightarrow> get_npu_info py_float (h\<lparr>lsusb_coral := a, lsusb_movidius := b\<rparr>) =
            \<lparr>npu_available = True, npu_name = Some ''Rockchip NPU'',
             npu_model = Some ''RK3588/RK3568 NPU'', npu_utilization_percent = v\<rparr>) \<and>
   (fs h ''/dev/rknpu'' \<noteq> Absent \<and>
    (fs h ''/sys/kernel/debug/rknpu/load'' = Unreadable \<or>
     (\<exists>t. fs h ''/sys/kernel/debug/rknpu/load'' = Content t \<and>
          py_float (remove_percent (strip t)) = None) \<or>
     fs h ''/sys/kernel/debug/rknpu/load'' = Absent \<and>
       (fs h ''/sys/class/devfreq/fdab0000.npu/load'' = Absent \<or>
        fs h ''/sys/class/devfreq/fdab0000.npu/load'' = Unreadable \<or>
        (\<exists>t. fs h ''/sys/class/devfreq/fdab0000.npu/load'' = Content t \<and>
             py_float (remove_percent (strip t)) = None)))
      \<longrightarrow> get_npu_info py_float (h\<lparr>lsusb_coral := a, lsusb_movidius := b\<rparr>) =
            \<lparr>npu_available = True, npu_name = Some ''Rockchip NPU'',
             npu_model = Some ''RK35xx NPU'', npu_utilization_percent = 0\<rparr>) \<and>
   (fs h ''/dev/rknpu'' = Absent \<and>
    (fs h ''/sys/class/devfreq'' = Absent \<or>
     fs h ''/sys/kernel/debug/rknpu/load'' = Unreadable \<or>
     (\<exists>t. fs h ''/sys/kernel/debug/rknpu/load'' = Content t \<and>
          py_float (remove_percent (strip t)) = None) \<or>
     fs h ''/sys/kernel/debug/rknpu/load'' = Absent \<and>
       (fs h ''/sys/class/devfreq/fdab0000.npu/load'' = Absent \<or>
        fs h ''/sys/class/devfreq/fdab0000.npu/load'' = Unreadable \<or>
        (\<exists>t. fs h ''/sys/class/devfreq/fdab0000.npu/load'' = Content t \<and>
             py_float (remove_percent (strip t)) = None)))
      \<longrightarrow> get_npu_info py_float h =
            (if \<exists>out. lsusb_coral h = Inr out \<and>
                   (str_in ''1a6e:089a'' out \<or> str_in ''18d1:9302'' out)
             then \<lparr>npu_available = True, npu_name = Some ''Google Coral Edge TPU'',
                   npu_model = Some ''Edge TPU'', npu_utilization_percent = 0\<rparr>
             else if \<exists>out. lsusb_movidius h = Inr out \<and> str_in ''03e7:2485'' out
             then \<lparr>npu_available = True, npu_name = Some ''Intel Movidius NCS2'',
                   npu_model = Some ''Myriad X VPU'', npu_utilization_percent = 0\<rparr>
             else \<lparr>npu_available = False, npu_name = None, npu_model = None,
                   npu_utilization_percent = 0\<rparr>))"
proof (intro conjI impI)
  assume g: "(fs h ''/sys/class/devfreq'' \<noteq> Absent \<or> fs h ''/dev/rknpu'' \<noteq> Absent) \<and>
    (fs h ''/sys/kernel/debug/rknpu/load'' = Content load_str \<or>
     fs h ''/sys/kernel/debug/rknpu/load'' = Absent \<and>
     fs h ''/sys/class/devfreq/fdab0000.npu/load'' = Content load_str) \<and>
    py_float (remove_percent (strip load_str)) = Some v"
  then have "rockchip_probe py_float h
      = Some (npu_found ''Rockchip NPU'' ''RK3588/RK3568 NPU'' v)"
    by (intro rockchip_probe_load) blast+
  then show "get_npu_info py_float (h\<lparr>lsusb_coral := a, lsusb_movidius := b\<rparr>) =
            \<lparr>npu_available = True, npu_name = Some ''Rockchip NPU'',
             npu_model = Some ''RK3588/RK3568 NPU'', npu_utilization_percent = v\<rparr>"
    by (simp add: get_npu_info_rockchip rockchip_probe_usb_independent npu_found_def)
next
  assume g: "fs h ''/dev/rknpu'' \<noteq> Absent \<and>
    (fs h ''/sys/kernel/debug/rknpu/load'' = Unreadable \<or>
     (\<exists>t. fs h ''/sys/kernel/debug/rknpu/load'' = Content t \<and>
          py_float (remove_percent (strip t)) = None) \<or>
     fs h ''/sys/kernel/debug/rknpu/load'' = Absent \<and>
       (fs h ''/sys/class/devfreq/fdab0000.npu/load'' = Absent \<or>
        fs h ''/sys/class/devfreq/fdab0000.npu/load'' = Unreadable \<or>
        (\<exists>t. fs h ''/sys/class/devfreq/fdab0000.npu/load'' = Content t \<and>
             py_float (remove_percent (strip t)) = None)))"
  then have "\<forall>r. rknpu_scan py_float (fs h) rknpu_paths \<noteq> Inr (Some r)"
    by (intro rknpu_scan_no_load) blast
  with g have "rockchip_probe py_float h = Some (npu_found ''Rockchip NPU'' ''RK35xx NPU'' 0)"
    by (intro rockchip_probe_no_load_device) blast+
  then show "get_npu_info py_float (h\<lparr>lsusb_coral := a, lsusb_movidius := b\<rparr>) =
            \<lparr>npu_available = True, npu_name = Some ''Rockchip NPU'',
             npu_model = Some ''RK35xx NPU'', npu_utilization_percent = 0\<rparr>"
    by (simp add: get_npu_info_rockchip rockchip_probe_usb_independent npu_found_def)
next
  assume g: "fs h ''/dev/rknpu'' = Absent \<and>
    (fs h ''/sys/class/devfreq'' = Absent \<or>
     fs h ''/sys/kernel/debug/rknpu/load'' = Unreadable \<or>
     (\<exists>t. fs h ''/sys/kernel/debug/rknpu/load'' = Content t \<and>
          py_float (remove_percent (strip t)) = None) \<or>
     fs h ''/sys/kernel/debug/rknpu/load'' = Absent \<and>
       (fs h ''/sys/class/devfreq/fdab0000.npu/load'' = Absent \<or>
        fs h ''/sys/class/devfreq/fdab0000.npu/load'' = Unreadable \<or>
        (\<exists>t. fs h ''/sys/class/devfreq/fdab0000.npu/load'' = Content t \<and>
             py_float (remove_percent (strip t)) = None)))"
  have "fs h ''/sys/class/devfreq'' = Absent \<or>
         (\<forall>r. rknpu_scan py_float (fs h) rknpu_paths \<noteq> Inr (Some r))"
  proof (cases "fs h ''/sys/class/devfreq'' = Absent")
    case True then show ?thesis by simp
  next
    case False
    with g have "\<forall>r. rknpu_scan py_float (fs h) rknpu_paths \<noteq> Inr (Some r)"
      by (intro rknpu_scan_no_load) blast
    then show ?thesis by simp
  qed
  with g have "rockchip_probe py_float h = None"
    by (intro rockchip_probe_nothing) blast+
  then show "get_npu_info py_float h =
            (if \<exists>out. lsusb_coral h = Inr out \<and>
                   (str_in ''1a6e:089a'' out \<or> str_in ''18d1:9302'' out)
             then \<lparr>npu_available = True, npu_name = Some ''Google Coral Edge TPU'',
                   npu_model = Some ''Edge TPU'', npu_utilization_percent = 0\<rparr>
             else if \<exists>out. lsusb_movidius h = Inr out \<and> str_in ''03e7:2485'' out
             then \<lparr>npu_available = True, npu_name = Some ''Intel Movidius NCS2'',
                   npu_model = Some ''Myriad X VPU'', npu_utilization_percent = 0\<rparr>
             else \<lparr>npu_available = False, npu_name = None, npu_model = None,
                   npu_utilization_percent = 0\<rparr>)"
    by (simp only: get_npu_info_usb npu_found_def npu_default_def)
qed

theorem npu_detection_order_witness:
  "get_npu_info float_of_digits (bare_host\<lparr>
      fs := (\<lambda>p. if p = ''/sys/class/devfreq'' then Unreadable
                 else if p = ''/sys/kernel/debug/rknpu/load'' then Content ''10%''
                 else Absent),
      lsusb_coral := Inr ''Bus 001 Device 004: ID 1a6e:089a'',
      lsusb_movidius := Inr ''Bus 001 Device 004: ID 1a6e:089a''\<rparr>)
     = \<lparr>npu_available = True, npu_name = Some ''Rockchip NPU'',
        npu_model = Some ''RK3588/RK3568 NPU'', npu_utilization_percent = 10\<rparr> \<and>
   get_npu_info float_of_digits (bare_host\<lparr>
      fs := (\<lambda>p. if p = ''/dev/rknpu'' then Unreadable
                 else if p = ''/sys/kernel/debug/rknpu/load'' then Unreadable
                 else if p = ''/sys/class/devfreq/fdab0000.npu/load'' then Content ''10''
                 else Absent),
      lsusb_coral := Inr ''Bus 001 Device 004: ID 1a6e:089a'',
      lsusb_movidius := Inr ''Bus 001 Device 004: ID 1a6e:089a''\<rparr>)
     = \<lparr>npu_available = True, npu_name = Some ''Rockchip NPU'',
        npu_model = Some ''RK35xx NPU'', npu_utilization_percent = 0\<rparr> \<and>
   get_npu_info float_of_digits (bare_host\<lparr>
      lsusb_coral := Inr ''Bus 001 Device 002: ID 8087:0024'',
      lsusb_movidius := Inr ''Bus 001 Device 005: ID 03e7:2485''\<rparr>)
     = \<lparr>npu_available = True, npu_name = Some ''Intel Movidius NCS2'',
        npu_model = Some ''Myriad X VPU'', npu_utilization_percent = 0\<rparr> \<and>
   get_npu_info float_of_digits bare_host
     = \<lparr>npu_available = False, npu_name = None, npu_model = None,
        npu_utilization_percent = 0\<rparr>"
  using npu_detection_order [where h = "bare_host\<lparr>
      fs := (\<lambda>p. if p = ''/sys/class/devfreq'' then Unreadable
                 else if p = ''/sys/kernel/debug/rknpu/load'' then Content ''10%''
                 else Absent)\<rparr>" and load_str = "''10%''" and py_float = float_of_digits
      and v = 10 and a = "Inr ''Bus 001 Device 004: ID 1a6e:089a''"
      and b = "Inr ''Bus 001 Device 004: ID 1a6e:089a''"]
    npu_detection_order [where h = "bare_host\<lparr>
      fs := (\<lambda>p. if p = ''/dev/rknpu'' then Unreadable
                 else if p = ''/sys/kernel/debug/rknpu/load'' then Unreadable
                 else if p = ''/sys/class/devfreq/fdab0000.npu/load'' then Content ''10''
                 else Absent)\<rparr>" and py_float = float_of_digits
      and a = "Inr ''Bus 001 Device 004: ID 1a6e:089a''"
      and b = "Inr ''Bus 001 Device 004: ID 1a6e:089a''"]
    npu_detection_order [where h = "bare_host\<lparr>
      lsusb_coral := Inr ''Bus 001 Device 002: ID 8087:0024'',
      lsusb_movidius := Inr ''Bus 001 Device 005: ID 03e7:2485''\<rparr>"
      and py_float = float_of_digits]
    npu_detection_order [where h = bare_host and py_float = float_of_digits]
  by (simp add: strip_def py_isspace_def remove_percent_def float_of_digits_10
      bare_host_def startswith_def)

theorem npu_rockchip_gate_counterexample:
  "fs (bare_host\<lparr>
      fs := (\<lambda>p. if p = ''/sys/kernel/debug/rknpu/load'' then Content ''10%'' else Absent),
      lsusb_coral := Inr ''Bus 001 Device 004: ID 1a6e:089a''\<rparr>)
      ''/sys/kernel/debug/rknpu/load'' = Content ''10%'' \<and>
   float_of_digits (remove_percent (strip ''10%'')) = Some 10 \<and>
   str_in ''1a6e:089a'' ''Bus 001 Device 004: ID 1a6e:089a'' \<and>
   get_npu_info float_of_digits (bare_host\<lparr>
      fs := (\<lambda>p. if p = ''/sys/kernel/debug/rknpu/load'' then Content ''10%'' else Absent),
      lsusb_coral := Inr ''Bus 001 Device 004: ID 1a6e:089a''\<rparr>)
     = \<lparr>npu_available = True, npu_name = Some ''Google Coral Edge TPU'',
        npu_model = Some ''Edge TPU'', npu_utilization_percent = 0\<rparr>"
  by (simp add: strip_def py_isspace_def remove_percent_def float_of_digits_10
      get_npu_info_def rockchip_probe_def path_exists_def coral_probe_def startswith_def
      npu_found_def)

end
